theory Spec2Isabelle
  imports Main "HOL-Library.Word"
begin

section \<open>Python values as they reach the crawler\<close>

text \<open>
  A Python \<open>str\<close> is a sequence of Unicode code points. The bullet U+2022 and the Korean
  fallback literals of \<open>wanted.py\<close> do not fit an 8-bit character, so a string is a list
  of code points; \<open>u\<close> reads an ASCII literal.
\<close>

type_synonym pystr = "nat list"

definition u :: "string \<Rightarrow> pystr" where
  "u s = map of_char s"

text \<open>
  What \<open>response.json()\<close> returns: \<open>None\<close>, \<open>bool\<close>, unbounded \<open>int\<close>, \<open>float\<close> (the 64
  bits of the IEEE double), \<open>str\<close>, \<open>list\<close> and \<open>dict\<close>. A \<open>dict\<close> is an association list
  read with \<open>map_of\<close>. The dictionaries the crawler builds itself are values of the same type.
\<close>

datatype json =
    JNull
  | JBool bool
  | JInt int
  | JFloat "64 word"
  | JStr pystr
  | JArr "json list"
  | JObj "(pystr \<times> json) list"

text \<open>The exception classes that occur; every subclass of
  \<open>requests.exceptions.RequestException\<close> is \<open>RequestException\<close>.\<close>

datatype exn = RequestException | KeyError | TypeError | AttributeError | ValueError | OSError

definition bind_exn :: "exn + 'a \<Rightarrow> ('a \<Rightarrow> exn + 'b) \<Rightarrow> exn + 'b" where
  "bind_exn m f = (case m of Inl e \<Rightarrow> Inl e | Inr x \<Rightarrow> f x)"

text \<open>Truth value of an object (\<open>if x\<close>, \<open>not x\<close>, \<open>x or y\<close>).\<close>

fun truthy :: "json \<Rightarrow> bool" where
  "truthy JNull = False"
| "truthy (JBool b) = b"
| "truthy (JInt n) = (n \<noteq> 0)"
| "truthy (JFloat w) = (push_bit 1 w \<noteq> 0)"
| "truthy (JStr s) = (s \<noteq> [])"
| "truthy (JArr xs) = (xs \<noteq> [])"
| "truthy (JObj kvs) = (kvs \<noteq> [])"

text \<open>\<open>obj[key]\<close> with a \<open>str\<close> key: only a \<open>dict\<close> can be indexed by a string.\<close>

fun subscript :: "json \<Rightarrow> pystr \<Rightarrow> exn + json" where
  "subscript (JObj kvs) k = (case map_of kvs k of None \<Rightarrow> Inl KeyError | Some v \<Rightarrow> Inr v)"
| "subscript _ k = Inl TypeError"

text \<open>\<open>obj.get(key, default)\<close>: only a \<open>dict\<close> has the method; a key that is present with
  the value \<open>None\<close> yields \<open>None\<close>, not the default.\<close>

fun py_get :: "json \<Rightarrow> pystr \<Rightarrow> json \<Rightarrow> exn + json" where
  "py_get (JObj kvs) k d = Inr (case map_of kvs k of None \<Rightarrow> d | Some v \<Rightarrow> v)"
| "py_get _ k d = Inl AttributeError"

section \<open>Field extractor: \<open>safe_get\<close>\<close>

text \<open>
  \<^verbatim>\<open>
  def safe_get(self, data: Dict, keys: List[str], default: any = None) -> any:
      try:
          result = data
          for key in keys:
              result = result[key]
          return result if result is not None else default
      except (KeyError, TypeError, AttributeError):
          return default
  \<close>
  \<open>walk\<close> is the loop; an exception leaves it at once.
\<close>

fun walk :: "json \<Rightarrow> pystr list \<Rightarrow> exn + json" where
  "walk result [] = Inr result"
| "walk result (key # keys) =
     (case subscript result key of Inl e \<Rightarrow> Inl e | Inr r \<Rightarrow> walk r keys)"

definition safe_get :: "json \<Rightarrow> pystr list \<Rightarrow> json \<Rightarrow> exn + json" where
  "safe_get data keys dflt =
     (case walk data keys of
        Inr result \<Rightarrow> Inr (if result \<noteq> JNull then result else dflt)
      | Inl e \<Rightarrow> if e \<in> {KeyError, TypeError, AttributeError} then Inr dflt else Inl e)"

text \<open>
  The specification's reading of a path: it resolves to a value when every segment is a
  key of a mapping reached so far; it does not resolve when a segment is absent or the
  value reached is not a mapping (\<open>null\<close> included).
\<close>

fun resolves :: "json \<Rightarrow> pystr list \<Rightarrow> json option" where
  "resolves v [] = Some v"
| "resolves (JObj kvs) (k # ks) =
     (case map_of kvs k of None \<Rightarrow> None | Some v \<Rightarrow> resolves v ks)"
| "resolves _ (k # ks) = None"

section \<open>Strings: \<open>replace\<close>, \<open>split\<close>, \<open>strip\<close>, \<open>join\<close>, \<open>str\<close>\<close>

definition bullet :: nat where
  "bullet = 8226"

text \<open>The default of the parameter \<open>delimiter\<close>.\<close>

definition newline :: pystr where
  "newline = [10]"

text \<open>The code points for which \<open>str.isspace\<close> holds; \<open>str.strip()\<close> removes them at
  both ends.\<close>

definition is_space :: "nat \<Rightarrow> bool" where
  "is_space c =
     (c \<in> {9, 10, 11, 12, 13, 28, 29, 30, 31, 32, 133, 160, 5760, 8232, 8233, 8239, 8287, 12288}
      \<or> (8192 \<le> c \<and> c \<le> 8202))"

definition strip :: "pystr \<Rightarrow> pystr" where
  "strip s = rev (dropWhile is_space (rev (dropWhile is_space s)))"

text \<open>\<open>s.replace(old, new)\<close>: the occurrences of \<open>old\<close> are found from the left and do
  not overlap; an empty \<open>old\<close> matches before every character and at the end.\<close>

function replace_py :: "'a list \<Rightarrow> 'a list \<Rightarrow> 'a list \<Rightarrow> 'a list" where
  "replace_py old new [] = (if old = [] then new else [])"
| "replace_py old new (c # cs) =
     (if old = [] then new @ c # replace_py old new cs
      else if take (length old) (c # cs) = old
           then new @ replace_py old new (drop (length old) (c # cs))
           else c # replace_py old new cs)"
  by pat_completeness auto
termination
  by (relation "measure (\<lambda>(old, new, s). length s)") auto

text \<open>\<open>s.split(sep)\<close> for a non-empty \<open>sep\<close> (an empty one raises \<open>ValueError\<close>, which
  \<open>safe_split\<close> below returns before it splits).\<close>

function split_py :: "'a list \<Rightarrow> 'a list \<Rightarrow> 'a list list" where
  "split_py sep [] = [[]]"
| "split_py sep (c # cs) =
     (if sep \<noteq> [] \<and> take (length sep) (c # cs) = sep
      then [] # split_py sep (drop (length sep) (c # cs))
      else (case split_py sep cs of [] \<Rightarrow> [[c]] | p # ps \<Rightarrow> (c # p) # ps))"
  by pat_completeness auto
termination
  by (relation "measure (\<lambda>(sep, s). length s)") auto

fun py_join :: "pystr \<Rightarrow> pystr list \<Rightarrow> pystr" where
  "py_join sep [] = []"
| "py_join sep [x] = x"
| "py_join sep (x # y # ys) = x @ sep @ py_join sep (y # ys)"

fun digits :: "nat \<Rightarrow> pystr" where
  "digits n = (if n < 10 then [48 + n] else digits (n div 10) @ [48 + n mod 10])"

declare digits.simps [simp del]

definition str_int :: "int \<Rightarrow> pystr" where
  "str_int n = (if n < 0 then 45 # digits (nat (- n)) else digits (nat n))"

text \<open>
  \<open>str(x)\<close>. For a \<open>float\<close>, a \<open>list\<close> and a \<open>dict\<close> the text is the interpreter's \<open>repr\<close>
  (shortest round-trip digits, nested quoting); it is the parameter \<open>render\<close> of every
  function that calls \<open>str\<close>.
\<close>

fun py_str :: "(json \<Rightarrow> pystr) \<Rightarrow> json \<Rightarrow> pystr" where
  "py_str render JNull = u ''None''"
| "py_str render (JBool b) = (if b then u ''True'' else u ''False'')"
| "py_str render (JInt n) = str_int n"
| "py_str render (JStr s) = s"
| "py_str render v = render v"

text \<open>\<open>for x in obj\<close>: a list yields its elements, a string its characters, a dict its
  keys; nothing else is iterable.\<close>

fun py_iter :: "json \<Rightarrow> exn + json list" where
  "py_iter (JArr xs) = Inr xs"
| "py_iter (JStr s) = Inr (map (\<lambda>c. JStr [c]) s)"
| "py_iter (JObj kvs) = Inr (map JStr (remdups (map fst kvs)))"
| "py_iter _ = Inl TypeError"

text \<open>A comprehension whose element expression may raise: the first exception ends it.\<close>

fun map_exn :: "('a \<Rightarrow> exn + 'b) \<Rightarrow> 'a list \<Rightarrow> exn + 'b list" where
  "map_exn f [] = Inr []"
| "map_exn f (x # xs) =
     bind_exn (f x) (\<lambda>y. bind_exn (map_exn f xs) (\<lambda>ys. Inr (y # ys)))"

section \<open>Field extractor: \<open>safe_split\<close>\<close>

text \<open>
  \<^verbatim>\<open>
  def safe_split(self, text: Optional[str], delimiter: str = "\n") -> List[str]:
      if not text:
          return []
      return [item.strip() for item in
              text.replace("\<bullet> ", "").replace("\<bullet>", "").split(delimiter) if item.strip()]
  \<close>
  (\<open>\<bullet>\<close> stands for U+2022.) A true value that is not a string has no \<open>replace\<close>.
\<close>

definition safe_split :: "json \<Rightarrow> pystr \<Rightarrow> exn + pystr list" where
  "safe_split text delimiter =
     (if \<not> truthy text then Inr []
      else case text of
             JStr s \<Rightarrow>
               (if delimiter = [] then Inl ValueError
                else Inr (map strip
                       (filter (\<lambda>item. strip item \<noteq> [])
                          (split_py delimiter
                             (replace_py [bullet] [] (replace_py [bullet, 32] [] s))))))
           | _ \<Rightarrow> Inl AttributeError)"

text \<open>
  The specification's words, "removes a leading bullet marker, splits on the delimiter,
  trims each piece, drops empty pieces", read piece by piece (the reading under which
  its own example holds).
\<close>

definition strip_leading_bullet :: "pystr \<Rightarrow> pystr" where
  "strip_leading_bullet s =
     (if take 2 s = [bullet, 32] then drop 2 s
      else if take 1 s = [bullet] then drop 1 s
      else s)"

definition split_lines_spec :: "pystr option \<Rightarrow> pystr \<Rightarrow> pystr list" where
  "split_lines_spec text delimiter =
     (case text of
        None \<Rightarrow> []
      | Some t \<Rightarrow>
          if t = [] then []
          else filter (\<lambda>p. p \<noteq> [])
                 (map (\<lambda>p. strip (strip_leading_bullet (strip p))) (split_py delimiter t)))"

text \<open>What the two \<open>replace\<close> calls do, in one pass: every bullet goes, wherever it
  stands, and with it a space that directly follows it.\<close>

fun drop_bullets :: "pystr \<Rightarrow> pystr" where
  "drop_bullets [] = []"
| "drop_bullets [c] = (if c = bullet then [] else [c])"
| "drop_bullets (c # d # cs) =
     (if c = bullet then (if d = 32 then drop_bullets cs else drop_bullets (d # cs))
      else c # drop_bullets (d # cs))"

section \<open>The remote service and the log\<close>

text \<open>
  \<open>requests.get(url)\<close>, \<open>response.raise_for_status()\<close> and \<open>response.json()\<close> together
  either raise or yield the decoded body. The listing endpoint is a function from the page
  number to that outcome, the detail endpoint a function from the identifier (the URL is
  built from nothing else).
\<close>

datatype response = Raises exn | Body json

datatype log_entry =
    Info_Starting
  | Info_No_More_Jobs
  | Info_Collected nat
  | Info_Completed nat
  | Info_Saved pystr
  | Warning_No_Data int
  | Warning_No_Data_To_Save
  | Error_Job_List exn
  | Error_Job_Detail pystr exn
  | Error_Unexpected pystr exn
  | Error_Saving exn

section \<open>Listing fetcher: \<open>get_job_list\<close>\<close>

text \<open>
  \<^verbatim>\<open>
  job_ids = [str(item.get('id')) for item in data.get('jobPositions', []) if item.get('id')]
  \<close>
\<close>

definition listing_ids :: "(json \<Rightarrow> pystr) \<Rightarrow> json \<Rightarrow> exn + pystr list" where
  "listing_ids render data =
     bind_exn (py_get data (u ''jobPositions'') (JArr [])) (\<lambda>positions.
     bind_exn (py_iter positions) (\<lambda>items.
     bind_exn (map_exn (\<lambda>item. py_get item (u ''id'') JNull) items) (\<lambda>ids.
     Inr (map (py_str render) (filter truthy ids)))))"

text \<open>
  \<^verbatim>\<open>
  try:
      response = requests.get(url); response.raise_for_status(); data = response.json()
      job_ids = ...
      if not job_ids:
          logger.warning(f"No data found for page {page}")
          return []
      return job_ids
  except requests.exceptions.RequestException as e:
      logger.error(f"Error fetching job list: {e}")
      return []
  \<close>
  Any other exception leaves the function.
\<close>

definition get_job_list ::
  "(json \<Rightarrow> pystr) \<Rightarrow> int \<Rightarrow> response \<Rightarrow> log_entry list \<times> (exn + pystr list)" where
  "get_job_list render page resp =
     (case (case resp of Raises e \<Rightarrow> Inl e | Body data \<Rightarrow> listing_ids render data) of
        Inl e \<Rightarrow>
          if e = RequestException then ([Error_Job_List e], Inr []) else ([], Inl e)
      | Inr job_ids \<Rightarrow>
          if job_ids = [] then ([Warning_No_Data page], Inr []) else ([], Inr job_ids))"

text \<open>The specification's words for the success case: the string form of the identifier
  of every entry whose identifier is not null.\<close>

definition item_id :: "json \<Rightarrow> json" where
  "item_id item =
     (case item of
        JObj kvs \<Rightarrow> (case map_of kvs (u ''id'') of None \<Rightarrow> JNull | Some v \<Rightarrow> v)
      | _ \<Rightarrow> JNull)"

definition listing_spec :: "(json \<Rightarrow> pystr) \<Rightarrow> json list \<Rightarrow> pystr list" where
  "listing_spec render items =
     map (py_str render) (filter (\<lambda>v. v \<noteq> JNull) (map item_id items))"

definition is_dict :: "json \<Rightarrow> bool" where
  "is_dict v = (case v of JObj kvs \<Rightarrow> True | _ \<Rightarrow> False)"

section \<open>Detail fetcher: \<open>get_job_detail\<close>\<close>

text \<open>The fallback literals of the source, as code points.\<close>

definition no_title :: pystr where
  "no_title = [51228, 47785, 32, 50630, 51020]"

definition no_intro :: pystr where
  "no_intro = [49548, 44060, 32, 50630, 51020]"

definition no_category :: pystr where
  "no_category = [52852, 53580, 44256, 47532, 32, 50630, 51020]"

definition no_company :: pystr where
  "no_company = [54924, 49324, 47749, 32, 50630, 51020]"

definition no_address :: pystr where
  "no_address = [51452, 49548, 32, 50630, 51020]"

definition no_role :: pystr where
  "no_role = [50669, 54624, 32, 51221, 48372, 32, 50630, 51020]"

definition no_requirement :: pystr where
  "no_requirement = [51088, 44201, 50836, 44148, 32, 50630, 51020]"

definition no_preferred :: pystr where
  "no_preferred = [50864, 45824, 49324, 54637, 32, 50630, 51020]"

definition no_due :: pystr where
  "no_due = [47560, 44048, 51068, 32, 48120, 51221]"

definition no_tech_stack :: pystr where
  "no_tech_stack = [44592, 49696, 32, 49828, 53469, 32, 50630, 51020]"

definition no_welfare :: pystr where
  "no_welfare = [48373, 51648, 32, 51221, 48372, 32, 50630, 51020]"

definition no_procedure :: pystr where
  "no_procedure = [52292, 50857, 32, 51208, 52264, 32, 48120, 51221]"

text \<open>\<open>xs or [fallback]\<close> on a list of strings, as the value stored in the record.\<close>

definition lines_or :: "pystr list \<Rightarrow> pystr \<Rightarrow> json" where
  "lines_or xs fallback = JArr (map JStr (if xs \<noteq> [] then xs else [fallback]))"

text \<open>
  The body of the \<open>try\<close> after \<open>data = response.json()\<close>, statement by statement and, in
  the dictionary display, entry by entry:
  \<^verbatim>\<open>
  job_position = data.get('jobPosition', {})
  categories = [str(cat_id) for cat_id in job_position.get('jobCategoryIds', [])]
  tech_stacks = [tag.get('name', '') for tag in job_position.get('technicalTags', [])]
  description = job_position.get('description', '')
  description_lines = self.safe_split(description)
  job_detail = {
      'title': job_position.get('title', <no_title>),
      'intro': job_position.get('description', <no_intro>),
      'category': categories or [<no_category>],
      'comp_name': self.safe_get(job_position, ['company', 'name'], <no_company>),
      'comp_addr': job_position.get('address', <no_address>),
      'role': description_lines or [<no_role>],
      'requirement': description_lines or [<no_requirement>],
      'preferred': self.safe_split(job_position.get('preferredExperience')) or [<no_preferred>],
      'due': job_position.get('endAt', <no_due>),
      'tech_stack': tech_stacks or [<no_tech_stack>],
      'welfare': self.safe_split(job_position.get('additionalInformation')) or [<no_welfare>],
      'procedure': job_position.get('additionalInformation', <no_procedure>)
  }
  \<close>
\<close>

definition build_detail :: "(json \<Rightarrow> pystr) \<Rightarrow> json \<Rightarrow> exn + (pystr \<times> json) list" where
  "build_detail render data =
     bind_exn (py_get data (u ''jobPosition'') (JObj [])) (\<lambda>job_position.
     bind_exn (py_get job_position (u ''jobCategoryIds'') (JArr [])) (\<lambda>cat_src.
     bind_exn (py_iter cat_src) (\<lambda>cat_ids.
     bind_exn (py_get job_position (u ''technicalTags'') (JArr [])) (\<lambda>tag_src.
     bind_exn (py_iter tag_src) (\<lambda>tags.
     bind_exn (map_exn (\<lambda>tag. py_get tag (u ''name'') (JStr [])) tags) (\<lambda>tech_stacks.
     bind_exn (py_get job_position (u ''description'') (JStr [])) (\<lambda>description.
     bind_exn (safe_split description newline) (\<lambda>description_lines.
     bind_exn (py_get job_position (u ''title'') (JStr no_title)) (\<lambda>title.
     bind_exn (py_get job_position (u ''description'') (JStr no_intro)) (\<lambda>intro.
     bind_exn (safe_get job_position [u ''company'', u ''name''] (JStr no_company)) (\<lambda>comp_name.
     bind_exn (py_get job_position (u ''address'') (JStr no_address)) (\<lambda>comp_addr.
     bind_exn (py_get job_position (u ''preferredExperience'') JNull) (\<lambda>pref_src.
     bind_exn (safe_split pref_src newline) (\<lambda>preferred.
     bind_exn (py_get job_position (u ''endAt'') (JStr no_due)) (\<lambda>due.
     bind_exn (py_get job_position (u ''additionalInformation'') JNull) (\<lambda>info_src.
     bind_exn (safe_split info_src newline) (\<lambda>welfare.
     bind_exn (py_get job_position (u ''additionalInformation'') (JStr no_procedure)) (\<lambda>procedure.
     Inr [(u ''title'', title),
          (u ''intro'', intro),
          (u ''category'', lines_or (map (py_str render) cat_ids) no_category),
          (u ''comp_name'', comp_name),
          (u ''comp_addr'', comp_addr),
          (u ''role'', lines_or description_lines no_role),
          (u ''requirement'', lines_or description_lines no_requirement),
          (u ''preferred'', lines_or preferred no_preferred),
          (u ''due'', due),
          (u ''tech_stack'', JArr (if tech_stacks \<noteq> [] then tech_stacks else [JStr no_tech_stack])),
          (u ''welfare'', lines_or welfare no_welfare),
          (u ''procedure'', procedure)]))))))))))))))))))"

text \<open>
  \<^verbatim>\<open>
  except requests.exceptions.RequestException as e:
      logger.error(f"Error fetching job detail for ID {job_id}: {e}"); return None
  except Exception as e:
      logger.error(f"Unexpected error processing job ID {job_id}: {e}"); return None
  \<close>
\<close>

definition get_job_detail ::
  "(json \<Rightarrow> pystr) \<Rightarrow> pystr \<Rightarrow> response \<Rightarrow> log_entry list \<times> (pystr \<times> json) list option" where
  "get_job_detail render job_id resp =
     (case (case resp of Raises e \<Rightarrow> Inl e | Body data \<Rightarrow> build_detail render data) of
        Inl e \<Rightarrow>
          ([if e = RequestException then Error_Job_Detail job_id e
            else Error_Unexpected job_id e], None)
      | Inr job_detail \<Rightarrow> ([], Some job_detail))"

text \<open>The twelve keys of a job record, in the order of the dictionary display.\<close>

definition field_names :: "pystr list" where
  "field_names =
     [u ''title'', u ''intro'', u ''category'', u ''comp_name'', u ''comp_addr'', u ''role'',
      u ''requirement'', u ''preferred'', u ''due'', u ''tech_stack'', u ''welfare'',
      u ''procedure'']"

text \<open>A field of the record a fetch produced, if it produced one.\<close>

definition field :: "(pystr \<times> json) list option \<Rightarrow> string \<Rightarrow> json option" where
  "field r k = (case r of None \<Rightarrow> None | Some d \<Rightarrow> map_of d (u k))"

text \<open>The value of a key of the raw job position; \<open>None\<close> when the key is absent.\<close>

definition source :: "(pystr \<times> json) list \<Rightarrow> string \<Rightarrow> json option" where
  "source jp k = map_of jp (u k)"

definition absent_or_null :: "json option \<Rightarrow> bool" where
  "absent_or_null v = (case v of None \<Rightarrow> True | Some x \<Rightarrow> x = JNull)"

text \<open>\<open>job_position.get(k, d)\<close> on a job position that is a dictionary.\<close>

definition source_or :: "(pystr \<times> json) list \<Rightarrow> string \<Rightarrow> json \<Rightarrow> json" where
  "source_or jp k d = (case source jp k of None \<Rightarrow> d | Some v \<Rightarrow> v)"

text \<open>The company name as the specification describes \<open>extract\<close>: the value at the path
  \<open>company\<close>, \<open>name\<close> if it resolves to a non-null value, the fallback otherwise.\<close>

definition company_name :: "(pystr \<times> json) list \<Rightarrow> json" where
  "company_name jp =
     (case resolves (JObj jp) [u ''company'', u ''name''] of
        None \<Rightarrow> JStr no_company
      | Some v \<Rightarrow> if v = JNull then JStr no_company else v)"

section \<open>Crawl orchestrator: \<open>crawl\<close>\<close>

text \<open>
  \<open>self.job_ids\<close> is a Python \<open>set\<close>: a collection that \<open>update\<close> extends by the elements
  it does not hold yet. It is a list here, so that "no duplicates" is a property to prove
  and not one of the type; the order in which the \<open>for\<close> loop of the second phase reads
  the set is the interpreter's, the parameter \<open>order\<close> of \<open>crawl\<close>. \<open>self.results\<close> is the
  list of job records. The other three fields record what the run does to the outside:
  the pages and identifiers requested, in order, and the log. (\<open>time.sleep(0.5)\<close> changes
  none of them.)
\<close>

record crawler =
  job_ids :: "pystr list"
  results :: "(pystr \<times> json) list list"
  pages_requested :: "int list"
  details_requested :: "pystr list"
  log :: "log_entry list"

text \<open>\<open>__init__\<close>: \<open>self.job_ids = set()\<close>, \<open>self.results = []\<close>.\<close>

definition new_crawler :: crawler where
  "new_crawler =
     \<lparr>job_ids = [], results = [], pages_requested = [], details_requested = [], log = []\<rparr>"

text \<open>\<open>s.update(xs)\<close>.\<close>

fun set_update :: "'a list \<Rightarrow> 'a list \<Rightarrow> 'a list" where
  "set_update s [] = s"
| "set_update s (x # xs) = set_update (if x \<in> set s then s else s @ [x]) xs"

text \<open>
  \<^verbatim>\<open>
  for page in range(1, max_pages + 1):
      new_ids = self.get_job_list(page)
      if not new_ids:
          logger.info("No more jobs to collect")
          break
      self.job_ids.update(new_ids)
      logger.info(f"Collected {len(self.job_ids)} unique job IDs...")
      time.sleep(0.5)
  \<close>
  The loop over the pages still to visit; an exception that \<open>get_job_list\<close> lets through
  ends the run, and is returned with the state reached.
\<close>

fun discover ::
  "(json \<Rightarrow> pystr) \<Rightarrow> (int \<Rightarrow> response) \<Rightarrow> int list \<Rightarrow> crawler \<Rightarrow> crawler \<times> exn option" where
  "discover render listing [] st = (st, None)"
| "discover render listing (page # pages) st =
     (case get_job_list render page (listing page) of
        (lg, fetched) \<Rightarrow>
          (let st1 = st\<lparr>pages_requested := pages_requested st @ [page], log := log st @ lg\<rparr>
           in case fetched of
                Inl e \<Rightarrow> (st1, Some e)
              | Inr new_ids \<Rightarrow>
                  if new_ids = [] then (st1\<lparr>log := log st1 @ [Info_No_More_Jobs]\<rparr>, None)
                  else discover render listing pages
                         (st1\<lparr>job_ids := set_update (job_ids st1) new_ids,
                              log := log st1 @
                                [Info_Collected (length (set_update (job_ids st1) new_ids))]\<rparr>)))"

text \<open>
  \<^verbatim>\<open>
  for job_id in self.job_ids:
      job_detail = self.get_job_detail(job_id)
      if job_detail:
          self.results.append(job_detail)
      time.sleep(0.5)
  \<close>
  over the identifiers in the order the set yields them. An empty dictionary is false.
\<close>

fun enrich ::
  "(json \<Rightarrow> pystr) \<Rightarrow> (pystr \<Rightarrow> response) \<Rightarrow> pystr list \<Rightarrow> crawler \<Rightarrow> crawler" where
  "enrich render detail [] st = st"
| "enrich render detail (job_id # ids) st =
     (case get_job_detail render job_id (detail job_id) of
        (lg, job_detail) \<Rightarrow>
          (let st1 = st\<lparr>details_requested := details_requested st @ [job_id],
                        log := log st @ lg\<rparr>
           in enrich render detail ids
                (case job_detail of
                   None \<Rightarrow> st1
                 | Some d \<Rightarrow> if d \<noteq> [] then st1\<lparr>results := results st1 @ [d]\<rparr> else st1)))"

definition crawl ::
  "(json \<Rightarrow> pystr) \<Rightarrow> (pystr list \<Rightarrow> pystr list) \<Rightarrow> (int \<Rightarrow> response) \<Rightarrow> (pystr \<Rightarrow> response) \<Rightarrow>
   int \<Rightarrow> crawler \<Rightarrow> crawler \<times> exn option" where
  "crawl render order listing detail max_pages st =
     (case discover render listing [1..max_pages] (st\<lparr>log := log st @ [Info_Starting]\<rparr>) of
        (st1, Some e) \<Rightarrow> (st1, Some e)
      | (st1, None) \<Rightarrow>
          (let st2 = enrich render detail (order (job_ids st1)) st1
           in (st2\<lparr>log := log st2 @ [Info_Completed (length (results st2))]\<rparr>, None)))"

text \<open>What ends the first phase at a page: its fetch returns an empty sequence, or does
  not return.\<close>

definition page_ids :: "(json \<Rightarrow> pystr) \<Rightarrow> (int \<Rightarrow> response) \<Rightarrow> int \<Rightarrow> exn + pystr list" where
  "page_ids render listing page = snd (get_job_list render page (listing page))"

definition ends_discovery :: "(json \<Rightarrow> pystr) \<Rightarrow> (int \<Rightarrow> response) \<Rightarrow> int \<Rightarrow> bool" where
  "ends_discovery render listing page =
     (case page_ids render listing page of Inl e \<Rightarrow> True | Inr ids \<Rightarrow> ids = [])"

text \<open>The page of the claim: its fetch returns, and returns an empty sequence.\<close>

definition returns_empty :: "(json \<Rightarrow> pystr) \<Rightarrow> (int \<Rightarrow> response) \<Rightarrow> int \<Rightarrow> bool" where
  "returns_empty render listing page = (page_ids render listing page = Inr [])"

text \<open>A detail fetch succeeds when it yields a record.\<close>

definition detail_succeeds :: "(json \<Rightarrow> pystr) \<Rightarrow> (pystr \<Rightarrow> response) \<Rightarrow> pystr \<Rightarrow> bool" where
  "detail_succeeds render detail job_id =
     (snd (get_job_detail render job_id (detail job_id)) \<noteq> None)"

section \<open>Exporter: \<open>save_to_csv\<close>\<close>

text \<open>
  \<open>pd.DataFrame(self.results)\<close> on a list of dictionaries: one row per dictionary, one
  column per key, the columns in the order in which the keys first occur. The library
  then chooses a type for each column from all its values and may replace them (an
  integer beside a \<open>None\<close> becomes a float beside \<open>NaN\<close>, a missing key becomes \<open>NaN\<close>): what
  it makes of row \<open>i\<close> of a column is \<open>infer\<close>, given the column's name and values. A
  value that is a list is kept as it is, since a column that holds a list is a column of
  objects. A row lists its cells with their column.
\<close>

datatype cell = NaN | Val json

type_synonym frame = "pystr list \<times> (pystr \<times> cell) list list"

definition frame_cell ::
  "(pystr \<Rightarrow> json option list \<Rightarrow> nat \<Rightarrow> cell) \<Rightarrow> (pystr \<times> json) list list \<Rightarrow> pystr \<Rightarrow> nat \<Rightarrow>
   cell" where
  "frame_cell infer records c i =
     (case map_of (records ! i) c of
        Some (JArr xs) \<Rightarrow> Val (JArr xs)
      | _ \<Rightarrow> infer c (map (\<lambda>r. map_of r c) records) i)"

definition data_frame ::
  "(pystr \<Rightarrow> json option list \<Rightarrow> nat \<Rightarrow> cell) \<Rightarrow> (pystr \<times> json) list list \<Rightarrow> frame" where
  "data_frame infer records =
     (let columns = rev (remdups (rev (concat (map (map fst) records))))
      in (columns,
          map (\<lambda>i. map (\<lambda>c. (c, frame_cell infer records c i)) columns)
            [0..<length records]))"

definition list_columns :: "pystr list" where
  "list_columns =
     [u ''category'', u ''role'', u ''requirement'', u ''preferred'', u ''tech_stack'',
      u ''welfare'']"

text \<open>
  \<^verbatim>\<open>lambda x: '|'.join(x) if isinstance(x, list) else str(x)\<close>;
  \<open>join\<close> raises \<open>TypeError\<close> at an item that is not a string.
\<close>

definition str_item :: "json \<Rightarrow> exn + pystr" where
  "str_item x = (case x of JStr s \<Rightarrow> Inr s | _ \<Rightarrow> Inl TypeError)"

fun flatten_cell :: "(json \<Rightarrow> pystr) \<Rightarrow> cell \<Rightarrow> exn + cell" where
  "flatten_cell render (Val (JArr xs)) =
     bind_exn (map_exn str_item xs) (\<lambda>items. Inr (Val (JStr (py_join (u ''|'') items))))"
| "flatten_cell render (Val v) = Inr (Val (JStr (py_str render v)))"
| "flatten_cell render NaN = Inr (Val (JStr (u ''nan'')))"

text \<open>\<open>df[col] = df[col].apply(f)\<close>; a column the frame does not have raises \<open>KeyError\<close>.\<close>

definition apply_column :: "(json \<Rightarrow> pystr) \<Rightarrow> pystr \<Rightarrow> frame \<Rightarrow> exn + frame" where
  "apply_column render col df =
     (case df of
        (columns, rows) \<Rightarrow>
          if col \<notin> set columns then Inl KeyError
          else bind_exn
                 (map_exn
                    (map_exn (\<lambda>(c, x).
                       if c = col then bind_exn (flatten_cell render x) (\<lambda>y. Inr (c, y))
                       else Inr (c, x)))
                    rows)
                 (\<lambda>rows'. Inr (columns, rows')))"

fun for_columns :: "(json \<Rightarrow> pystr) \<Rightarrow> pystr list \<Rightarrow> frame \<Rightarrow> exn + frame" where
  "for_columns render [] df = Inr df"
| "for_columns render (col # cols) df =
     bind_exn (apply_column render col df) (for_columns render cols)"

text \<open>
  \<open>df.to_csv(filename, index=False, encoding='utf-8-sig')\<close> writes the header row and one
  row per row of the frame; with \<open>index=True\<close> every row would start with its number. A
  cell that is a string is written as that string; the text of any other cell is the
  library's, \<open>fmt\<close>. The file is kept as what reading it back yields, the header row and
  the data rows, field by field: the library quotes a field wherever a reader would
  otherwise split it, so that the text in between loses nothing. \<open>write_error\<close> is the
  exception with which the write itself fails, if it does (a file name in a directory
  that does not exist, text that the encoding cannot represent).
\<close>

fun cell_text :: "(cell \<Rightarrow> pystr) \<Rightarrow> cell \<Rightarrow> pystr" where
  "cell_text fmt (Val (JStr s)) = s"
| "cell_text fmt x = fmt x"

definition to_csv :: "(cell \<Rightarrow> pystr) \<Rightarrow> bool \<Rightarrow> frame \<Rightarrow> pystr list \<times> pystr list list" where
  "to_csv fmt index df =
     (case df of
        (columns, rows) \<Rightarrow>
          if index
          then ([] # columns,
                map (\<lambda>(i, row). str_int (int i) # map (\<lambda>(c, x). cell_text fmt x) row)
                  (enumerate 0 rows))
          else (columns, map (map (\<lambda>(c, x). cell_text fmt x)) rows))"

text \<open>
  \<^verbatim>\<open>
  def save_to_csv(self, filename: str = None):
      if not filename:
          filename = f'programmers_jobs_{datetime.now().strftime("%Y%m%d_%H%M%S")}.csv'
      if not self.results:
          logger.warning("No data to save")
          return
      try:
          df = pd.DataFrame(self.results)
          list_columns = ['category', 'role', 'requirement', 'preferred', 'tech_stack', 'welfare']
          for col in list_columns:
              df[col] = df[col].apply(lambda x: '|'.join(x) if isinstance(x, list) else str(x))
          df.to_csv(filename, index=False, encoding='utf-8-sig')
          logger.info(f"Data saved to {filename}")
      except Exception as e:
          logger.error(f"Error saving to CSV: {e}")
  \<close>
  \<open>stamp\<close> is the formatted reading of the clock. The result is the log and the file
  written (its name, header row and data rows), if one is.
\<close>

definition file_name :: "pystr \<Rightarrow> pystr option \<Rightarrow> pystr" where
  "file_name stamp filename =
     (case filename of
        None \<Rightarrow> u ''programmers_jobs_'' @ stamp @ u ''.csv''
      | Some f \<Rightarrow> if f = [] then u ''programmers_jobs_'' @ stamp @ u ''.csv'' else f)"

definition save_to_csv ::
  "(pystr \<Rightarrow> json option list \<Rightarrow> nat \<Rightarrow> cell) \<Rightarrow> (cell \<Rightarrow> pystr) \<Rightarrow> (json \<Rightarrow> pystr) \<Rightarrow> pystr \<Rightarrow>
   exn option \<Rightarrow> pystr option \<Rightarrow> (pystr \<times> json) list list \<Rightarrow>
   log_entry list \<times> (pystr \<times> pystr list \<times> pystr list list) option" where
  "save_to_csv infer fmt render stamp write_error filename records =
     (if records = [] then ([Warning_No_Data_To_Save], None)
      else case for_columns render list_columns (data_frame infer records) of
             Inl e \<Rightarrow> ([Error_Saving e], None)
           | Inr df \<Rightarrow>
               (case write_error of
                  Some e \<Rightarrow> ([Error_Saving e], None)
                | None \<Rightarrow>
                    ([Info_Saved (file_name stamp filename)],
                     Some (file_name stamp filename, to_csv fmt False df))))"

text \<open>
  A job record whose sequence-valued fields hold strings only: the twelve keys, and a
  sequence of strings under each of the six fields that the specification's data model
  gives as sequences.
\<close>

definition sequence_fields :: "pystr list" where
  "sequence_fields =
     [u ''category'', u ''role'', u ''requirement'', u ''preferred'', u ''tech_stack'',
      u ''welfare'']"

definition is_str :: "json \<Rightarrow> bool" where
  "is_str v = (case v of JStr s \<Rightarrow> True | _ \<Rightarrow> False)"

definition is_str_list :: "json option \<Rightarrow> bool" where
  "is_str_list v = (case v of Some (JArr xs) \<Rightarrow> list_all is_str xs | _ \<Rightarrow> False)"

definition is_job_record :: "(pystr \<times> json) list \<Rightarrow> bool" where
  "is_job_record r =
     (map fst r = field_names \<and> list_all (\<lambda>c. is_str_list (map_of r c)) sequence_fields)"

text \<open>A list cell with its elements joined; the strings of a list of strings.\<close>

definition the_str :: "json \<Rightarrow> pystr" where
  "the_str v = (case v of JStr s \<Rightarrow> s | _ \<Rightarrow> [])"

definition joined_cell :: "cell \<Rightarrow> cell" where
  "joined_cell x =
     (case x of Val (JArr xs) \<Rightarrow> Val (JStr (py_join (u ''|'') (map the_str xs))) | _ \<Rightarrow> x)"

definition is_str_list_cell :: "cell \<Rightarrow> bool" where
  "is_str_list_cell x = (case x of Val v \<Rightarrow> is_str_list (Some v) | NaN \<Rightarrow> False)"

section \<open>Auxiliary notions and example inputs\<close>

text \<open>The elements of a list up to and including the first that satisfies \<open>P\<close>.\<close>

fun through_first :: "('a \<Rightarrow> bool) \<Rightarrow> 'a list \<Rightarrow> 'a list" where
  "through_first P [] = []"
| "through_first P (x # xs) = (if P x then [x] else x # through_first P xs)"

text \<open>The examples below pass no float, list or dictionary to \<open>str\<close>; this stands for
  the interpreter's rendering of those.\<close>

definition no_repr :: "json \<Rightarrow> pystr" where
  "no_repr v = []"

text \<open>The record of a job position without any field.\<close>

definition fallback_record :: "(pystr \<times> json) list" where
  "fallback_record =
     [(u ''title'', JStr no_title), (u ''intro'', JStr no_intro),
      (u ''category'', JArr [JStr no_category]), (u ''comp_name'', JStr no_company),
      (u ''comp_addr'', JStr no_address), (u ''role'', JArr [JStr no_role]),
      (u ''requirement'', JArr [JStr no_requirement]), (u ''preferred'', JArr [JStr no_preferred]),
      (u ''due'', JStr no_due), (u ''tech_stack'', JArr [JStr no_tech_stack]),
      (u ''welfare'', JArr [JStr no_welfare]), (u ''procedure'', JStr no_procedure)]"

text \<open>A listing page with an identifier 0, an entry without identifier, and two more.\<close>

definition listing_example :: json where
  "listing_example =
     JObj [(u ''jobPositions'',
            JArr [JObj [(u ''id'', JInt 0)], JObj [(u ''title'', JStr (u ''x''))],
                  JObj [(u ''id'', JInt 17)], JObj [(u ''id'', JStr (u ''a9''))]])]"

text \<open>The specification's example: a description of one bulleted line, nothing else.\<close>

definition intro_line_example :: json where
  "intro_line_example =
     JObj [(u ''jobPosition'', JObj [(u ''description'', JStr (bullet # u '' intro line''))])]"

definition intro_line_record :: "(pystr \<times> json) list" where
  "intro_line_record =
     [(u ''title'', JStr no_title), (u ''intro'', JStr (bullet # u '' intro line'')),
      (u ''category'', JArr [JStr no_category]), (u ''comp_name'', JStr no_company),
      (u ''comp_addr'', JStr no_address), (u ''role'', JArr [JStr (u ''intro line'')]),
      (u ''requirement'', JArr [JStr (u ''intro line'')]),
      (u ''preferred'', JArr [JStr no_preferred]),
      (u ''due'', JStr no_due), (u ''tech_stack'', JArr [JStr no_tech_stack]),
      (u ''welfare'', JArr [JStr no_welfare]), (u ''procedure'', JStr no_procedure)]"

text \<open>Additional information of two lines, and additional information that is one space.\<close>

definition welfare_example :: json where
  "welfare_example =
     JObj [(u ''jobPosition'',
            JObj [(u ''additionalInformation'',
                   JStr (u ''free lunch'' @ newline @ bullet # u '' gym''))])]"

definition welfare_record :: "(pystr \<times> json) list" where
  "welfare_record =
     [(u ''title'', JStr no_title), (u ''intro'', JStr no_intro),
      (u ''category'', JArr [JStr no_category]), (u ''comp_name'', JStr no_company),
      (u ''comp_addr'', JStr no_address), (u ''role'', JArr [JStr no_role]),
      (u ''requirement'', JArr [JStr no_requirement]), (u ''preferred'', JArr [JStr no_preferred]),
      (u ''due'', JStr no_due), (u ''tech_stack'', JArr [JStr no_tech_stack]),
      (u ''welfare'', JArr [JStr (u ''free lunch''), JStr (u ''gym'')]),
      (u ''procedure'', JStr (u ''free lunch'' @ newline @ bullet # u '' gym''))]"

definition blank_info_example :: json where
  "blank_info_example =
     JObj [(u ''jobPosition'', JObj [(u ''additionalInformation'', JStr (u '' ''))])]"

text \<open>
  A service of two pages that share the identifier 2, every later page empty, and whose
  detail endpoint fails for the identifier 2.
\<close>

definition two_page_listing :: "int \<Rightarrow> response" where
  "two_page_listing page =
     (if page = 1
      then Body (JObj [(u ''jobPositions'',
                        JArr [JObj [(u ''id'', JInt 1)], JObj [(u ''id'', JInt 2)]])])
      else if page = 2
      then Body (JObj [(u ''jobPositions'',
                        JArr [JObj [(u ''id'', JInt 2)], JObj [(u ''id'', JInt 3)]])])
      else Body (JObj []))"

definition failing_detail :: "pystr \<Rightarrow> response" where
  "failing_detail job_id =
     (if job_id = u ''2'' then Raises RequestException
      else Body (JObj [(u ''jobPosition'', JObj [])]))"

text \<open>A record whose technology stack is Python and Go, and the two rows of the file
  for it and for the record of fallbacks.\<close>

definition python_go_record :: "(pystr \<times> json) list" where
  "python_go_record =
     [(u ''title'', JStr (u ''Backend'')), (u ''intro'', JStr no_intro),
      (u ''category'', JArr [JStr (u ''1''), JStr (u ''4'')]), (u ''comp_name'', JStr no_company),
      (u ''comp_addr'', JStr no_address), (u ''role'', JArr [JStr no_role]),
      (u ''requirement'', JArr [JStr no_requirement]), (u ''preferred'', JArr [JStr no_preferred]),
      (u ''due'', JStr no_due), (u ''tech_stack'', JArr [JStr (u ''Python''), JStr (u ''Go'')]),
      (u ''welfare'', JArr [JStr no_welfare]), (u ''procedure'', JStr no_procedure)]"

definition python_go_row :: "pystr list" where
  "python_go_row =
     [u ''Backend'', no_intro, u ''1|4'', no_company, no_address, no_role, no_requirement,
      no_preferred, no_due, u ''Python|Go'', no_welfare, no_procedure]"

definition fallback_row :: "pystr list" where
  "fallback_row =
     [no_title, no_intro, no_category, no_company, no_address, no_role, no_requirement,
      no_preferred, no_due, no_tech_stack, no_welfare, no_procedure]"

text \<open>In these examples every value that is not a list is a string, in every column;
  the library keeps such columns as they are, and strings are written as they are.\<close>

definition keep_values :: "pystr \<Rightarrow> json option list \<Rightarrow> nat \<Rightarrow> cell" where
  "keep_values c values i = (case values ! i of None \<Rightarrow> NaN | Some v \<Rightarrow> Val v)"

definition no_text :: "cell \<Rightarrow> pystr" where
  "no_text x = []"

text \<open>A service whose second page answers with a JSON array instead of an object, every
  other page with one identifier.\<close>

definition array_page_listing :: "int \<Rightarrow> response" where
  "array_page_listing page =
     (if page = 2 then Body (JArr [])
      else Body (JObj [(u ''jobPositions'', JArr [JObj [(u ''id'', JInt page)]])]))"

text \<open>A job position with one tag whose name is null.\<close>

definition null_tag_example :: json where
  "null_tag_example =
     JObj [(u ''jobPosition'', JObj [(u ''technicalTags'', JArr [JObj [(u ''name'', JNull)]])])]"

definition null_tag_record :: "(pystr \<times> json) list" where
  "null_tag_record =
     [(u ''title'', JStr no_title), (u ''intro'', JStr no_intro),
      (u ''category'', JArr [JStr no_category]), (u ''comp_name'', JStr no_company),
      (u ''comp_addr'', JStr no_address), (u ''role'', JArr [JStr no_role]),
      (u ''requirement'', JArr [JStr no_requirement]), (u ''preferred'', JArr [JStr no_preferred]),
      (u ''due'', JStr no_due), (u ''tech_stack'', JArr [JNull]),
      (u ''welfare'', JArr [JStr no_welfare]), (u ''procedure'', JStr no_procedure)]"

section \<open>Exceptions as values\<close>

lemma bind_exn_Inr [simp]: "bind_exn (Inr x) f = f x"
  by (simp add: bind_exn_def)

lemma bind_exn_Inl [simp]: "bind_exn (Inl e) f = Inl e"
  by (simp add: bind_exn_def)

lemma bind_exn_eq_Inr: "bind_exn m f = Inr y \<longleftrightarrow> (\<exists>x. m = Inr x \<and> f x = Inr y)"
  by (cases m) simp_all

section \<open>Properties of \<open>safe_get\<close>\<close>

lemma walk_resolves:
  "resolves data keys = Some v \<Longrightarrow> walk data keys = Inr v"
  by (induction data keys rule: resolves.induct) (auto split: option.splits)

lemma walk_raises:
  "walk data keys = Inl e \<Longrightarrow> e = KeyError \<or> e = TypeError"
proof (induction keys arbitrary: data)
  case Nil
  then show ?case by simp
next
  case (Cons k ks)
  show ?case
  proof (cases data)
    case (JObj kvs)
    with Cons show ?thesis by (auto split: option.splits)
  qed (use Cons in simp_all)
qed

lemma walk_unresolved:
  "resolves data keys = None \<Longrightarrow> \<exists>e. walk data keys = Inl e"
  by (induction data keys rule: resolves.induct) (simp_all split: option.splits)

lemma safe_get_unresolved:
  assumes "resolves data keys = None"
  shows "safe_get data keys dflt = Inr dflt"
proof -
  from assms obtain e where e: "walk data keys = Inl e"
    using walk_unresolved by blast
  then have "e = KeyError \<or> e = TypeError"
    by (rule walk_raises)
  with e show ?thesis
    by (auto simp: safe_get_def)
qed

lemma safe_get_resolved:
  assumes "resolves data keys = Some v"
  shows "safe_get data keys dflt = Inr (if v = JNull then dflt else v)"
proof -
  from assms have "walk data keys = Inr v"
    by (rule walk_resolves)
  then show ?thesis
    by (simp add: safe_get_def)
qed

lemma safe_get_company:
  "safe_get (JObj jp) [u ''company'', u ''name''] (JStr no_company) = Inr (company_name jp)"
proof (cases "resolves (JObj jp) [u ''company'', u ''name'']")
  case None
  then show ?thesis
    by (simp only: safe_get_unresolved company_name_def option.case)
next
  case (Some v)
  then show ?thesis
    by (simp only: safe_get_resolved company_name_def option.case)
qed

text \<open>
  Claim C1. For every value, every path of string keys and every default, \<open>safe_get\<close>
  returns (\<open>Inr\<close>: it never raises); the result is the default when the path does not
  resolve (a segment is absent, or the value reached is \<open>None\<close> or anything else that is
  not a mapping) or resolves to \<open>None\<close>, and the terminal value itself otherwise.
\<close>

theorem safe_get_total_exact:
  "safe_get data keys dflt =
     Inr (case resolves data keys of
            None \<Rightarrow> dflt
          | Some v \<Rightarrow> if v = JNull then dflt else v)"
proof (cases "resolves data keys")
  case None
  then have "safe_get data keys dflt = Inr dflt"
    by (rule safe_get_unresolved)
  with None show ?thesis
    by simp
next
  case (Some v)
  then have "safe_get data keys dflt = Inr (if v = JNull then dflt else v)"
    by (rule safe_get_resolved)
  with Some show ?thesis
    by simp
qed

section \<open>Properties of \<open>safe_split\<close>\<close>

lemma two_pass_replace:
  "replace_py [bullet] [] (replace_py [bullet, 32] [] s) = drop_bullets s"
  by (induction s rule: drop_bullets.induct) (auto simp: bullet_def)

lemma safe_split_falsy: "\<not> truthy text \<Longrightarrow> safe_split text delimiter = Inr []"
  by (simp add: safe_split_def)

lemma safe_split_text:
  "t \<noteq> [] \<Longrightarrow> delimiter \<noteq> [] \<Longrightarrow>
   safe_split (JStr t) delimiter =
     Inr (filter (\<lambda>p. p \<noteq> []) (map strip (split_py delimiter (drop_bullets t))))"
  by (simp add: safe_split_def two_pass_replace filter_map comp_def)

text \<open>
  Claim C3, amended. \<open>safe_split\<close> returns the empty sequence for \<open>None\<close> and for the empty
  string; for any other text and a non-empty delimiter it removes every bullet, wherever
  it stands in the text and together with a space directly after it (not only a leading
  one), splits at the delimiter, trims each piece and drops the pieces that are empty,
  in the order of the text.
\<close>

theorem safe_split_removes_every_bullet:
  "safe_split JNull delimiter = Inr [] \<and>
   safe_split (JStr []) delimiter = Inr [] \<and>
   (t \<noteq> [] \<and> delimiter \<noteq> [] \<longrightarrow>
      safe_split (JStr t) delimiter =
        Inr (filter (\<lambda>p. p \<noteq> []) (map strip (split_py delimiter (drop_bullets t)))))"
  by (simp add: safe_split_falsy safe_split_text)

text \<open>The specification's example, bullet-a, newline, bullet-b, gives a and b.\<close>

theorem safe_split_removes_every_bullet_witness:
  "bullet # u '' a'' @ newline @ bullet # u '' b'' \<noteq> [] \<and> newline \<noteq> [] \<and>
   safe_split (JStr (bullet # u '' a'' @ newline @ bullet # u '' b'')) newline = Inr [u ''a'', u ''b'']"
  using safe_split_removes_every_bullet [of newline "bullet # u '' a'' @ newline @ bullet # u '' b''"]
  by (simp add: u_def bullet_def newline_def strip_def is_space_def)

text \<open>
  The claim as stated fails where a bullet is not leading: from a-bullet-b the code
  returns the single piece ab, while removing a leading marker leaves the text as it is.
\<close>

theorem safe_split_inner_bullet_counterexample:
  "safe_split (JStr (u ''a'' @ bullet # u ''b'')) newline = Inr [u ''ab''] \<and>
   split_lines_spec (Some (u ''a'' @ bullet # u ''b'')) newline = [u ''a'' @ bullet # u ''b''] \<and>
   safe_split (JStr (u ''a'' @ bullet # u ''b'')) newline \<noteq>
     Inr (split_lines_spec (Some (u ''a'' @ bullet # u ''b'')) newline)"
  by (simp add: safe_split_def split_lines_spec_def strip_leading_bullet_def u_def bullet_def
        newline_def strip_def is_space_def)

section \<open>Properties of \<open>get_job_list\<close>\<close>

lemma map_exn_item_ids:
  "list_all is_dict items \<Longrightarrow>
   map_exn (\<lambda>item. py_get item (u ''id'') JNull) items = Inr (map item_id items)"
proof (induction items)
  case Nil
  then show ?case by simp
next
  case (Cons item items)
  then obtain kvs where "item = JObj kvs"
    by (cases item) (simp_all add: is_dict_def)
  with Cons show ?case
    by (simp add: item_id_def)
qed

lemma listing_ids_well_shaped:
  assumes "py_get data (u ''jobPositions'') (JArr []) = Inr (JArr items)"
      and "list_all is_dict items"
  shows "listing_ids render data = Inr (map (py_str render) (filter truthy (map item_id items)))"
  using assms by (simp add: listing_ids_def map_exn_item_ids)

text \<open>
  Claim C5, amended. When the request fails (transport or HTTP status) \<open>get_job_list\<close>
  logs the error and returns the empty sequence. On a body whose \<open>jobPositions\<close> is a list
  of objects (or is absent) it returns, in the order of the list, the string form of the
  identifier of every entry whose identifier is true in Python's sense: present, not
  null, and not \<open>0\<close>, \<open>False\<close> or empty; the other entries are skipped, and an empty
  result is logged as a warning.
\<close>

theorem get_job_list_truthy_ids:
  "get_job_list render page (Raises RequestException) = ([Error_Job_List RequestException], Inr []) \<and>
   (py_get data (u ''jobPositions'') (JArr []) = Inr (JArr items) \<and> list_all is_dict items \<longrightarrow>
      get_job_list render page (Body data) =
        (if filter truthy (map item_id items) = [] then [Warning_No_Data page] else [],
         Inr (map (py_str render) (filter truthy (map item_id items)))))"
  by (auto simp: get_job_list_def listing_ids_well_shaped)

theorem get_job_list_truthy_ids_witness:
  "py_get listing_example (u ''jobPositions'') (JArr []) =
     Inr (JArr [JObj [(u ''id'', JInt 0)], JObj [(u ''title'', JStr (u ''x''))],
                  JObj [(u ''id'', JInt 17)], JObj [(u ''id'', JStr (u ''a9''))]]) \<and>
   list_all is_dict [JObj [(u ''id'', JInt 0)], JObj [(u ''title'', JStr (u ''x''))],
                  JObj [(u ''id'', JInt 17)], JObj [(u ''id'', JStr (u ''a9''))]] \<and>
   get_job_list no_repr 1 (Body listing_example) = ([], Inr [u ''17'', u ''a9''])"
  using get_job_list_truthy_ids [of no_repr 1 listing_example
     "[JObj [(u ''id'', JInt 0)], JObj [(u ''title'', JStr (u ''x''))],
                  JObj [(u ''id'', JInt 17)], JObj [(u ''id'', JStr (u ''a9''))]]"]
  by (simp add: listing_example_def is_dict_def item_id_def u_def str_int_def digits.simps)

text \<open>
  The claim as stated, "every entry whose identifier field is non-null", fails at the
  identifier \<open>0\<close>: the code skips the entry.
\<close>

theorem get_job_list_zero_id_counterexample:
  "get_job_list no_repr 1
     (Body (JObj [(u ''jobPositions'',
                   JArr [JObj [(u ''id'', JInt 0)], JObj [(u ''id'', JInt 7)]])])) =
     ([], Inr [u ''7'']) \<and>
   listing_spec no_repr [JObj [(u ''id'', JInt 0)], JObj [(u ''id'', JInt 7)]] =
     [u ''0'', u ''7'']"
  by (simp add: get_job_list_def listing_ids_def listing_spec_def item_id_def u_def str_int_def
        digits.simps)

section \<open>Properties of \<open>get_job_detail\<close>\<close>

lemma build_detail_unfold:
  assumes jp: "py_get data (u ''jobPosition'') (JObj []) = Inr (JObj jp)"
  shows "build_detail render data =
     bind_exn (py_iter (source_or jp ''jobCategoryIds'' (JArr []))) (\<lambda>cat_ids.
     bind_exn (py_iter (source_or jp ''technicalTags'' (JArr []))) (\<lambda>tags.
     bind_exn (map_exn (\<lambda>tag. py_get tag (u ''name'') (JStr [])) tags) (\<lambda>tech_stacks.
     bind_exn (safe_split (source_or jp ''description'' (JStr [])) newline) (\<lambda>description_lines.
     bind_exn (safe_split (source_or jp ''preferredExperience'' JNull) newline) (\<lambda>preferred.
     bind_exn (safe_split (source_or jp ''additionalInformation'' JNull) newline) (\<lambda>welfare.
     Inr [(u ''title'', source_or jp ''title'' (JStr no_title)),
          (u ''intro'', source_or jp ''description'' (JStr no_intro)),
          (u ''category'', lines_or (map (py_str render) cat_ids) no_category),
          (u ''comp_name'', company_name jp),
          (u ''comp_addr'', source_or jp ''address'' (JStr no_address)),
          (u ''role'', lines_or description_lines no_role),
          (u ''requirement'', lines_or description_lines no_requirement),
          (u ''preferred'', lines_or preferred no_preferred),
          (u ''due'', source_or jp ''endAt'' (JStr no_due)),
          (u ''tech_stack'', JArr (if tech_stacks \<noteq> [] then tech_stacks else [JStr no_tech_stack])),
          (u ''welfare'', lines_or welfare no_welfare),
          (u ''procedure'', source_or jp ''additionalInformation'' (JStr no_procedure))]))))))"
  unfolding build_detail_def jp bind_exn_Inr py_get.simps safe_get_company
    source_or_def source_def
  by (rule refl)

lemma build_detail_record:
  assumes jp: "py_get data (u ''jobPosition'') (JObj []) = Inr (JObj jp)"
      and ok: "build_detail render data = Inr r"
  shows "\<exists>cat_ids tags tech_stacks description_lines preferred welfare.
           py_iter (source_or jp ''jobCategoryIds'' (JArr [])) = Inr cat_ids \<and>
           py_iter (source_or jp ''technicalTags'' (JArr [])) = Inr tags \<and>
           map_exn (\<lambda>tag. py_get tag (u ''name'') (JStr [])) tags = Inr tech_stacks \<and>
           safe_split (source_or jp ''description'' (JStr [])) newline = Inr description_lines \<and>
           safe_split (source_or jp ''preferredExperience'' JNull) newline = Inr preferred \<and>
           safe_split (source_or jp ''additionalInformation'' JNull) newline = Inr welfare \<and>
           r = [(u ''title'', source_or jp ''title'' (JStr no_title)),
                (u ''intro'', source_or jp ''description'' (JStr no_intro)),
                (u ''category'', lines_or (map (py_str render) cat_ids) no_category),
                (u ''comp_name'', company_name jp),
                (u ''comp_addr'', source_or jp ''address'' (JStr no_address)),
                (u ''role'', lines_or description_lines no_role),
                (u ''requirement'', lines_or description_lines no_requirement),
                (u ''preferred'', lines_or preferred no_preferred),
                (u ''due'', source_or jp ''endAt'' (JStr no_due)),
                (u ''tech_stack'', JArr (if tech_stacks \<noteq> [] then tech_stacks else [JStr no_tech_stack])),
                (u ''welfare'', lines_or welfare no_welfare),
                (u ''procedure'', source_or jp ''additionalInformation'' (JStr no_procedure))]"
  using ok unfolding build_detail_unfold [OF jp] bind_exn_eq_Inr
  by (elim exE conjE) (simp only: sum.inject, blast)

lemma get_job_detail_Some:
  "get_job_detail render job_id (Body data) = (lg, Some r) \<Longrightarrow> build_detail render data = Inr r"
  by (auto simp: get_job_detail_def split: sum.splits)

lemma build_detail_nonempty: "build_detail render data = Inr d \<Longrightarrow> d \<noteq> []"
  unfolding build_detail_def bind_exn_eq_Inr
  by (elim exE conjE) (simp only: sum.inject, blast)

lemma get_job_detail_nonempty:
  "get_job_detail render job_id resp = (lg, Some d) \<Longrightarrow> d \<noteq> []"
  by (auto simp: get_job_detail_def build_detail_nonempty split: sum.splits response.splits)

lemma record_fields:
  assumes "r = [(u ''title'', v1), (u ''intro'', v2), (u ''category'', v3), (u ''comp_name'', v4),
                (u ''comp_addr'', v5), (u ''role'', v6), (u ''requirement'', v7),
                (u ''preferred'', v8), (u ''due'', v9), (u ''tech_stack'', v10),
                (u ''welfare'', v11), (u ''procedure'', v12)]"
  shows "map fst r = field_names"
    and "field (Some r) ''title'' = Some v1"
    and "field (Some r) ''intro'' = Some v2"
    and "field (Some r) ''category'' = Some v3"
    and "field (Some r) ''comp_name'' = Some v4"
    and "field (Some r) ''comp_addr'' = Some v5"
    and "field (Some r) ''role'' = Some v6"
    and "field (Some r) ''requirement'' = Some v7"
    and "field (Some r) ''preferred'' = Some v8"
    and "field (Some r) ''due'' = Some v9"
    and "field (Some r) ''tech_stack'' = Some v10"
    and "field (Some r) ''welfare'' = Some v11"
    and "field (Some r) ''procedure'' = Some v12"
  unfolding assms by (simp_all add: field_def field_names_def u_def)

lemma lines_or_not_null: "lines_or xs d \<noteq> JNull"
  by (simp add: lines_or_def)

lemma company_name_not_null: "company_name jp \<noteq> JNull"
  by (simp add: company_name_def split: option.splits)

lemma company_name_fallback:
  "absent_or_null (resolves (JObj jp) [u ''company'', u ''name'']) \<Longrightarrow>
   company_name jp = JStr no_company"
  by (simp add: company_name_def absent_or_null_def split: option.splits)

lemma safe_split_absent_or_null:
  "absent_or_null (source jp k) \<Longrightarrow> safe_split (source_or jp k JNull) newline = Inr []"
  "absent_or_null (source jp k) \<Longrightarrow> safe_split (source_or jp k (JStr [])) newline = Inr []"
  by (simp_all add: absent_or_null_def source_or_def safe_split_def split: option.splits)

lemma detail_lines:
  assumes "get_job_detail render job_id (Body data) = (lg, Some r)"
      and "py_get data (u ''jobPosition'') (JObj []) = Inr (JObj jp)"
  shows "\<exists>description_lines preferred welfare.
      safe_split (source_or jp ''description'' (JStr [])) newline = Inr description_lines \<and>
      safe_split (source_or jp ''preferredExperience'' JNull) newline = Inr preferred \<and>
      safe_split (source_or jp ''additionalInformation'' JNull) newline = Inr welfare \<and>
      field (Some r) ''role'' = Some (lines_or description_lines no_role) \<and>
      field (Some r) ''requirement'' = Some (lines_or description_lines no_requirement) \<and>
      field (Some r) ''preferred'' = Some (lines_or preferred no_preferred) \<and>
      field (Some r) ''welfare'' = Some (lines_or welfare no_welfare) \<and>
      field (Some r) ''procedure'' = Some (source_or jp ''additionalInformation'' (JStr no_procedure))"
proof -
  have "build_detail render data = Inr r"
    using assms(1) by (rule get_job_detail_Some)
  with assms(2) obtain cat_ids and tags :: "json list" and tech_stacks description_lines preferred welfare where
    desc: "safe_split (source_or jp ''description'' (JStr [])) newline = Inr description_lines" and
    pref: "safe_split (source_or jp ''preferredExperience'' JNull) newline = Inr preferred" and
    welf: "safe_split (source_or jp ''additionalInformation'' JNull) newline = Inr welfare" and
    r: "r = [(u ''title'', source_or jp ''title'' (JStr no_title)),
             (u ''intro'', source_or jp ''description'' (JStr no_intro)),
             (u ''category'', lines_or (map (py_str render) cat_ids) no_category),
             (u ''comp_name'', company_name jp),
             (u ''comp_addr'', source_or jp ''address'' (JStr no_address)),
             (u ''role'', lines_or description_lines no_role),
             (u ''requirement'', lines_or description_lines no_requirement),
             (u ''preferred'', lines_or preferred no_preferred),
             (u ''due'', source_or jp ''endAt'' (JStr no_due)),
             (u ''tech_stack'', JArr (if tech_stacks \<noteq> [] then tech_stacks else [JStr no_tech_stack])),
             (u ''welfare'', lines_or welfare no_welfare),
             (u ''procedure'', source_or jp ''additionalInformation'' (JStr no_procedure))]"
    using build_detail_record by blast
  note f = record_fields [OF r]
  from desc pref welf show ?thesis
    by (simp add: f)
qed

lemmas eval_defs =
  get_job_detail_def build_detail_def safe_get_def safe_split_def lines_or_def
  field_def source_def source_or_def absent_or_null_def field_names_def
  u_def bullet_def newline_def strip_def is_space_def

lemma empty_position_record:
  "get_job_detail no_repr (u ''1'') (Body (JObj [(u ''jobPosition'', JObj [])])) =
     ([], Some fallback_record)"
  by (simp add: eval_defs fallback_record_def)

text \<open>
  Claim C2, amended. Every record of a successful detail fetch has exactly the twelve
  keys, in the order of the specification's table. The fields \<open>category\<close>, \<open>comp_name\<close>,
  \<open>role\<close>, \<open>requirement\<close>, \<open>preferred\<close>, \<open>tech_stack\<close> and \<open>welfare\<close> are never null.
  Whenever the key of the source is absent, the field is the fallback literal of the code
  (the Korean strings \<open>no_title\<close>, ..., \<open>no_procedure\<close>, not their English renderings); for
  \<open>comp_name\<close>, \<open>role\<close>, \<open>requirement\<close>, \<open>preferred\<close> and \<open>welfare\<close> also when the source is
  null.
\<close>

theorem job_record_fields_and_fallbacks:
  assumes "get_job_detail render job_id (Body data) = (lg, Some r)"
      and "py_get data (u ''jobPosition'') (JObj []) = Inr (JObj jp)"
  shows "map fst r = field_names \<and>
    (\<forall>k \<in> set [''category'', ''comp_name'', ''role'', ''requirement'', ''preferred'',
                ''tech_stack'', ''welfare'']. \<exists>v. field (Some r) k = Some v \<and> v \<noteq> JNull) \<and>
    (source jp ''title'' = None \<longrightarrow> field (Some r) ''title'' = Some (JStr no_title)) \<and>
    (source jp ''description'' = None \<longrightarrow> field (Some r) ''intro'' = Some (JStr no_intro)) \<and>
    (source jp ''address'' = None \<longrightarrow> field (Some r) ''comp_addr'' = Some (JStr no_address)) \<and>
    (source jp ''endAt'' = None \<longrightarrow> field (Some r) ''due'' = Some (JStr no_due)) \<and>
    (source jp ''additionalInformation'' = None \<longrightarrow>
       field (Some r) ''procedure'' = Some (JStr no_procedure)) \<and>
    (source jp ''jobCategoryIds'' = None \<longrightarrow>
       field (Some r) ''category'' = Some (JArr [JStr no_category])) \<and>
    (source jp ''technicalTags'' = None \<longrightarrow>
       field (Some r) ''tech_stack'' = Some (JArr [JStr no_tech_stack])) \<and>
    (absent_or_null (resolves (JObj jp) [u ''company'', u ''name'']) \<longrightarrow>
       field (Some r) ''comp_name'' = Some (JStr no_company)) \<and>
    (absent_or_null (source jp ''description'') \<longrightarrow>
       field (Some r) ''role'' = Some (JArr [JStr no_role]) \<and>
       field (Some r) ''requirement'' = Some (JArr [JStr no_requirement])) \<and>
    (absent_or_null (source jp ''preferredExperience'') \<longrightarrow>
       field (Some r) ''preferred'' = Some (JArr [JStr no_preferred])) \<and>
    (absent_or_null (source jp ''additionalInformation'') \<longrightarrow>
       field (Some r) ''welfare'' = Some (JArr [JStr no_welfare]))"
proof -
  have "build_detail render data = Inr r"
    using assms(1) by (rule get_job_detail_Some)
  with assms(2) obtain cat_ids tags tech_stacks description_lines preferred welfare where
    cat: "py_iter (source_or jp ''jobCategoryIds'' (JArr [])) = Inr cat_ids" and
    tag: "py_iter (source_or jp ''technicalTags'' (JArr [])) = Inr tags" and
    tech: "map_exn (\<lambda>tag. py_get tag (u ''name'') (JStr [])) tags = Inr tech_stacks" and
    desc: "safe_split (source_or jp ''description'' (JStr [])) newline = Inr description_lines" and
    pref: "safe_split (source_or jp ''preferredExperience'' JNull) newline = Inr preferred" and
    welf: "safe_split (source_or jp ''additionalInformation'' JNull) newline = Inr welfare" and
    r: "r = [(u ''title'', source_or jp ''title'' (JStr no_title)),
             (u ''intro'', source_or jp ''description'' (JStr no_intro)),
             (u ''category'', lines_or (map (py_str render) cat_ids) no_category),
             (u ''comp_name'', company_name jp),
             (u ''comp_addr'', source_or jp ''address'' (JStr no_address)),
             (u ''role'', lines_or description_lines no_role),
             (u ''requirement'', lines_or description_lines no_requirement),
             (u ''preferred'', lines_or preferred no_preferred),
             (u ''due'', source_or jp ''endAt'' (JStr no_due)),
             (u ''tech_stack'', JArr (if tech_stacks \<noteq> [] then tech_stacks else [JStr no_tech_stack])),
             (u ''welfare'', lines_or welfare no_welfare),
             (u ''procedure'', source_or jp ''additionalInformation'' (JStr no_procedure))]"
    using build_detail_record by blast
  note f = record_fields [OF r]
  have keys: "map fst r = field_names"
    by (rule f)
  have nonnull: "\<forall>k \<in> set [''category'', ''comp_name'', ''role'', ''requirement'', ''preferred'',
                ''tech_stack'', ''welfare'']. \<exists>v. field (Some r) k = Some v \<and> v \<noteq> JNull"
    by (simp add: f lines_or_not_null company_name_not_null)
  have scalars:
    "source jp ''title'' = None \<longrightarrow> field (Some r) ''title'' = Some (JStr no_title)"
    "source jp ''description'' = None \<longrightarrow> field (Some r) ''intro'' = Some (JStr no_intro)"
    "source jp ''address'' = None \<longrightarrow> field (Some r) ''comp_addr'' = Some (JStr no_address)"
    "source jp ''endAt'' = None \<longrightarrow> field (Some r) ''due'' = Some (JStr no_due)"
    "source jp ''additionalInformation'' = None \<longrightarrow>
       field (Some r) ''procedure'' = Some (JStr no_procedure)"
    by (simp_all add: f source_or_def)
  have cats: "source jp ''jobCategoryIds'' = None \<longrightarrow>
       field (Some r) ''category'' = Some (JArr [JStr no_category])"
    using cat by (auto simp: f source_or_def lines_or_def)
  have techs: "source jp ''technicalTags'' = None \<longrightarrow>
       field (Some r) ''tech_stack'' = Some (JArr [JStr no_tech_stack])"
    using tag tech by (auto simp: f source_or_def)
  have comp: "absent_or_null (resolves (JObj jp) [u ''company'', u ''name'']) \<longrightarrow>
       field (Some r) ''comp_name'' = Some (JStr no_company)"
    by (simp add: f company_name_fallback)
  have roles: "absent_or_null (source jp ''description'') \<longrightarrow>
       field (Some r) ''role'' = Some (JArr [JStr no_role]) \<and>
       field (Some r) ''requirement'' = Some (JArr [JStr no_requirement])"
    using desc by (auto simp: f safe_split_absent_or_null lines_or_def)
  have prefs: "absent_or_null (source jp ''preferredExperience'') \<longrightarrow>
       field (Some r) ''preferred'' = Some (JArr [JStr no_preferred])"
    using pref by (auto simp: f safe_split_absent_or_null lines_or_def)
  have welfs: "absent_or_null (source jp ''additionalInformation'') \<longrightarrow>
       field (Some r) ''welfare'' = Some (JArr [JStr no_welfare])"
    using welf by (auto simp: f safe_split_absent_or_null lines_or_def)
  from keys nonnull scalars cats techs comp roles prefs welfs show ?thesis
    by (intro conjI)
qed

theorem job_record_fields_and_fallbacks_witness:
  "get_job_detail no_repr (u ''1'') (Body (JObj [(u ''jobPosition'', JObj [])])) =
     ([], Some fallback_record) \<and>
   py_get (JObj [(u ''jobPosition'', JObj [])]) (u ''jobPosition'') (JObj []) = Inr (JObj []) \<and>
   source [] ''title'' = None \<and>
   absent_or_null (source [] ''description'') \<and>
   absent_or_null (resolves (JObj []) [u ''company'', u ''name'']) \<and>
   map fst fallback_record = field_names \<and>
   field (Some fallback_record) ''title'' = Some (JStr no_title) \<and>
   field (Some fallback_record) ''comp_name'' = Some (JStr no_company) \<and>
   field (Some fallback_record) ''role'' = Some (JArr [JStr no_role])"
  using job_record_fields_and_fallbacks
    [where render = no_repr and job_id = "u ''1''" and lg = "[]" and r = fallback_record
       and data = "JObj [(u ''jobPosition'', JObj [])]" and jp = "[]"]
  by (simp add: empty_position_record source_def absent_or_null_def)

text \<open>
  The claim as stated fails: a title that is present and null stays null in the record,
  and the fallback of \<open>due\<close> is not the string "due date undecided".
\<close>

theorem job_record_null_title_counterexample:
  "field (snd (get_job_detail no_repr (u ''1'')
            (Body (JObj [(u ''jobPosition'', JObj [(u ''title'', JNull)])])))) ''title'' = Some JNull \<and>
   field (snd (get_job_detail no_repr (u ''1'')
            (Body (JObj [(u ''jobPosition'', JObj [(u ''title'', JNull)])])))) ''due'' = Some (JStr no_due) \<and>
   no_due \<noteq> u ''due date undecided''"
  by (simp add: eval_defs no_due_def)

lemma intro_line_fetch:
  "get_job_detail no_repr (u ''1'') (Body intro_line_example) = ([], Some intro_line_record)"
  by (simp add: eval_defs intro_line_example_def intro_line_record_def)

lemma intro_line_split:
  "safe_split (JStr (bullet # u '' intro line'')) newline = Inr [u ''intro line'']"
  by (simp add: eval_defs)

text \<open>
  Claim C4, amended. In every record of a successful detail fetch, \<open>role\<close> and
  \<open>requirement\<close> are both the split of the description when that split is not empty, and
  otherwise their two different fallbacks; \<open>preferred\<close> and \<open>welfare\<close> are their fallbacks
  (the code's Korean literals) when \<open>preferredExperience\<close> and \<open>additionalInformation\<close> are
  absent.
\<close>

theorem role_requirement_from_description:
  assumes "get_job_detail render job_id (Body data) = (lg, Some r)"
      and "py_get data (u ''jobPosition'') (JObj []) = Inr (JObj jp)"
  shows "(\<exists>ls. safe_split (source_or jp ''description'' (JStr [])) newline = Inr ls \<and>
            (ls \<noteq> [] \<longrightarrow> field (Some r) ''role'' = Some (JArr (map JStr ls)) \<and>
                         field (Some r) ''requirement'' = Some (JArr (map JStr ls))) \<and>
            (ls = [] \<longrightarrow> field (Some r) ''role'' = Some (JArr [JStr no_role]) \<and>
                        field (Some r) ''requirement'' = Some (JArr [JStr no_requirement]))) \<and>
         (source jp ''preferredExperience'' = None \<longrightarrow>
            field (Some r) ''preferred'' = Some (JArr [JStr no_preferred])) \<and>
         (source jp ''additionalInformation'' = None \<longrightarrow>
            field (Some r) ''welfare'' = Some (JArr [JStr no_welfare]))"
proof -
  from detail_lines [OF assms] obtain description_lines preferred welfare where
    desc: "safe_split (source_or jp ''description'' (JStr [])) newline = Inr description_lines" and
    pref: "safe_split (source_or jp ''preferredExperience'' JNull) newline = Inr preferred" and
    welf: "safe_split (source_or jp ''additionalInformation'' JNull) newline = Inr welfare" and
    f: "field (Some r) ''role'' = Some (lines_or description_lines no_role)"
       "field (Some r) ''requirement'' = Some (lines_or description_lines no_requirement)"
       "field (Some r) ''preferred'' = Some (lines_or preferred no_preferred)"
       "field (Some r) ''welfare'' = Some (lines_or welfare no_welfare)"
    by blast
  have "source jp ''preferredExperience'' = None \<longrightarrow> preferred = []"
    using pref by (auto simp: source_or_def safe_split_def)
  moreover have "source jp ''additionalInformation'' = None \<longrightarrow> welfare = []"
    using welf by (auto simp: source_or_def safe_split_def)
  ultimately show ?thesis
    using desc by (auto simp: f lines_or_def)
qed

text \<open>The specification's example: the description is one bulleted line.\<close>

theorem role_requirement_from_description_witness:
  "get_job_detail no_repr (u ''1'') (Body intro_line_example) = ([], Some intro_line_record) \<and>
   py_get intro_line_example (u ''jobPosition'') (JObj []) =
     Inr (JObj [(u ''description'', JStr (bullet # u '' intro line''))]) \<and>
   source [(u ''description'', JStr (bullet # u '' intro line''))] ''preferredExperience'' = None \<and>
   source [(u ''description'', JStr (bullet # u '' intro line''))] ''additionalInformation'' = None \<and>
   field (Some intro_line_record) ''role'' = Some (JArr [JStr (u ''intro line'')]) \<and>
   field (Some intro_line_record) ''requirement'' = Some (JArr [JStr (u ''intro line'')]) \<and>
   field (Some intro_line_record) ''preferred'' = Some (JArr [JStr no_preferred]) \<and>
   field (Some intro_line_record) ''welfare'' = Some (JArr [JStr no_welfare])"
  using role_requirement_from_description
    [where render = no_repr and job_id = "u ''1''" and lg = "[]" and r = intro_line_record
       and data = intro_line_example
       and jp = "[(u ''description'', JStr (bullet # u '' intro line''))]"]
  by (simp add: intro_line_fetch intro_line_split source_or_def source_def)
    (simp add: intro_line_example_def u_def)

text \<open>
  The claim as stated fails twice: without a description \<open>role\<close> and \<open>requirement\<close>
  differ, and in the specification's example \<open>preferred\<close> is not the English literal.
\<close>

theorem role_requirement_differ_counterexample:
  "field (snd (get_job_detail no_repr (u ''1'') (Body (JObj [(u ''jobPosition'', JObj [])]))))
     ''role'' = Some (JArr [JStr no_role]) \<and>
   field (snd (get_job_detail no_repr (u ''1'') (Body (JObj [(u ''jobPosition'', JObj [])]))))
     ''requirement'' = Some (JArr [JStr no_requirement]) \<and>
   no_role \<noteq> no_requirement \<and>
   field (snd (get_job_detail no_repr (u ''1'') (Body intro_line_example)))
     ''preferred'' = Some (JArr [JStr no_preferred]) \<and>
   no_preferred \<noteq> u ''no preference info''"
  by (simp add: eval_defs intro_line_example_def no_role_def no_requirement_def no_preferred_def)

lemma welfare_fetch:
  "get_job_detail no_repr (u ''1'') (Body welfare_example) = ([], Some welfare_record)"
  by (simp add: eval_defs welfare_example_def welfare_record_def)

lemma welfare_split:
  "safe_split (JStr (u ''free lunch'' @ newline @ bullet # u '' gym'')) newline =
     Inr [u ''free lunch'', u ''gym'']"
  by (simp add: eval_defs)

text \<open>
  Claim C10, amended. When \<open>additionalInformation\<close> is a non-empty string, \<open>procedure\<close> is
  that string and \<open>welfare\<close> is \<open>safe_split(procedure)\<close> if that is not empty, and the
  singleton fallback otherwise.
\<close>

theorem welfare_is_split_of_procedure_or_fallback:
  assumes "get_job_detail render job_id (Body data) = (lg, Some r)"
      and "py_get data (u ''jobPosition'') (JObj []) = Inr (JObj jp)"
      and "source jp ''additionalInformation'' = Some (JStr s)"
      and "s \<noteq> []"
  shows "field (Some r) ''procedure'' = Some (JStr s) \<and>
         (\<exists>ls. safe_split (JStr s) newline = Inr ls \<and>
               field (Some r) ''welfare'' =
                 Some (JArr (map JStr (if ls \<noteq> [] then ls else [no_welfare]))))"
proof -
  from detail_lines [OF assms(1,2)] obtain welfare where
    welf: "safe_split (source_or jp ''additionalInformation'' JNull) newline = Inr welfare" and
    f: "field (Some r) ''welfare'' = Some (lines_or welfare no_welfare)"
       "field (Some r) ''procedure'' = Some (source_or jp ''additionalInformation'' (JStr no_procedure))"
    by blast
  from assms(3) welf f show ?thesis
    by (simp add: source_or_def lines_or_def)
qed

theorem welfare_is_split_of_procedure_or_fallback_witness:
  "get_job_detail no_repr (u ''1'') (Body welfare_example) = ([], Some welfare_record) \<and>
   py_get welfare_example (u ''jobPosition'') (JObj []) =
     Inr (JObj [(u ''additionalInformation'', JStr (u ''free lunch'' @ newline @ bullet # u '' gym''))]) \<and>
   source [(u ''additionalInformation'', JStr (u ''free lunch'' @ newline @ bullet # u '' gym''))]
     ''additionalInformation'' = Some (JStr (u ''free lunch'' @ newline @ bullet # u '' gym'')) \<and>
   u ''free lunch'' @ newline @ bullet # u '' gym'' \<noteq> [] \<and>
   field (Some welfare_record) ''procedure'' =
     Some (JStr (u ''free lunch'' @ newline @ bullet # u '' gym'')) \<and>
   field (Some welfare_record) ''welfare'' = Some (JArr [JStr (u ''free lunch''), JStr (u ''gym'')])"
  using welfare_is_split_of_procedure_or_fallback
    [where render = no_repr and job_id = "u ''1''" and lg = "[]" and r = welfare_record
       and data = welfare_example
       and jp = "[(u ''additionalInformation'', JStr (u ''free lunch'' @ newline @ bullet # u '' gym''))]"
       and s = "u ''free lunch'' @ newline @ bullet # u '' gym''"]
  by (simp add: welfare_fetch welfare_split source_def)
    (simp add: welfare_example_def u_def newline_def)

text \<open>
  The claim as stated fails for additional information that is a single space: the
  split of \<open>procedure\<close> is empty, \<open>welfare\<close> is the fallback.
\<close>

theorem welfare_blank_information_counterexample:
  "field (snd (get_job_detail no_repr (u ''1'') (Body blank_info_example))) ''procedure'' =
     Some (JStr (u '' '')) \<and>
   safe_split (JStr (u '' '')) newline = Inr [] \<and>
   field (snd (get_job_detail no_repr (u ''1'') (Body blank_info_example))) ''welfare'' =
     Some (JArr [JStr no_welfare])"
  by (simp add: eval_defs blank_info_example_def)

section \<open>Properties of \<open>crawl\<close>\<close>

lemma distinct_set_update: "distinct s \<Longrightarrow> distinct (set_update s xs)"
  by (induction xs arbitrary: s) auto

lemma set_set_update: "set (set_update s xs) = set s \<union> set xs"
  by (induction xs arbitrary: s) auto

lemma discover_distinct:
  "distinct (job_ids st) \<Longrightarrow> distinct (job_ids (fst (discover render listing pages st)))"
proof (induction pages arbitrary: st)
  case Nil
  then show ?case by simp
next
  case (Cons page pages)
  then show ?case
    by (auto simp: Let_def distinct_set_update split: prod.splits sum.splits)
qed

lemma discover_pages:
  "pages_requested (fst (discover render listing pages st)) =
     pages_requested st @ through_first (ends_discovery render listing) pages"
proof (induction pages arbitrary: st)
  case Nil
  then show ?case by simp
next
  case (Cons page pages)
  then show ?case
    by (auto simp: Let_def ends_discovery_def page_ids_def split: prod.splits sum.splits)
qed

lemma discover_results: "results (fst (discover render listing pages st)) = results st"
  by (induction pages arbitrary: st) (auto simp: Let_def split: prod.splits sum.splits)

lemma discover_details:
  "details_requested (fst (discover render listing pages st)) = details_requested st"
  by (induction pages arbitrary: st) (auto simp: Let_def split: prod.splits sum.splits)

lemma through_first_upto:
  "through_first P [i..j] = (case find P [i..j] of None \<Rightarrow> [i..j] | Some k \<Rightarrow> [i..k])"
proof (induction i j rule: upto.induct)
  case (1 i j)
  show ?case
  proof (cases "i \<le> j")
    case True
    then have up: "[i..j] = i # [i + 1..j]"
      by (simp add: upto_rec1)
    show ?thesis
    proof (cases "P i")
      case True
      then show ?thesis by (simp add: up)
    next
      case False
      have "through_first P [i + 1..j] =
              (case find P [i + 1..j] of None \<Rightarrow> [i + 1..j] | Some k \<Rightarrow> [i + 1..k])"
        using \<open>i \<le> j\<close> by (rule "1.IH")
      moreover have "i < k" if "find P [i + 1..j] = Some k" for k
        using that by (auto simp: find_Some_iff)
      ultimately show ?thesis
        using False by (auto simp: up upto_rec1 split: option.splits)
    qed
  next
    case False
    then show ?thesis by simp
  qed
qed

lemma enrich_job_ids: "job_ids (enrich render detail ids st) = job_ids st"
  by (induction ids arbitrary: st) (auto simp: Let_def split: prod.splits option.splits)

lemma enrich_pages: "pages_requested (enrich render detail ids st) = pages_requested st"
  by (induction ids arbitrary: st) (auto simp: Let_def split: prod.splits option.splits)

lemma enrich_details:
  "details_requested (enrich render detail ids st) = details_requested st @ ids"
  by (induction ids arbitrary: st) (auto simp: Let_def split: prod.splits option.splits)

lemma enrich_results:
  "length (results (enrich render detail ids st)) =
     length (results st) + length (filter (detail_succeeds render detail) ids)"
proof (induction ids arbitrary: st)
  case Nil
  then show ?case by simp
next
  case (Cons job_id ids)
  obtain lg job_detail where g: "get_job_detail render job_id (detail job_id) = (lg, job_detail)"
    by (cases "get_job_detail render job_id (detail job_id)")
  show ?case
  proof (cases job_detail)
    case None
    with g Cons show ?thesis
      by (simp add: detail_succeeds_def)
  next
    case (Some d)
    with g have "d \<noteq> []"
      using get_job_detail_nonempty by blast
    with g Some Cons show ?thesis
      by (simp add: detail_succeeds_def)
  qed
qed

lemma count_list_distinct: "distinct xs \<Longrightarrow> x \<in> set xs \<Longrightarrow> count_list xs x = 1"
  by (induction xs) (auto simp: count_list_0_iff)

lemma filter_length_same_set:
  assumes "distinct xs" and "distinct ys" and "set xs = set ys"
  shows "length (filter P xs) = length (filter P ys)"
  using assms by (simp add: distinct_length_filter)

text \<open>
  In any run, the pages requested are 1, 2, ... up to the first page whose fetch returns
  an empty sequence or does not return.
\<close>

lemma crawl_pages_requested:
  "pages_requested (fst (crawl render order listing detail max_pages new_crawler)) =
     through_first (ends_discovery render listing) [1..max_pages]"
proof -
  have "pages_requested (fst (crawl render order listing detail max_pages new_crawler)) =
          pages_requested (fst (discover render listing [1..max_pages]
             (new_crawler\<lparr>log := log new_crawler @ [Info_Starting]\<rparr>)))"
    by (simp add: crawl_def Let_def enrich_pages split: prod.splits option.splits)
  also have "\<dots> = through_first (ends_discovery render listing) [1..max_pages]"
    by (simp add: discover_pages new_crawler_def)
  finally show ?thesis .
qed

text \<open>When the first phase completes, no fetch it made has raised: it stopped, if at
  all, at a page that returned an empty sequence.\<close>

lemma discover_completes_pages:
  "snd (discover render listing pages st) = None \<Longrightarrow>
   through_first (ends_discovery render listing) pages =
     through_first (returns_empty render listing) pages"
proof (induction pages arbitrary: st)
  case Nil
  then show ?case by simp
next
  case (Cons page pages)
  obtain lg r where g: "get_job_list render page (listing page) = (lg, r)"
    by (cases "get_job_list render page (listing page)")
  show ?case
  proof (cases r)
    case (Inl e)
    with g Cons.prems show ?thesis
      by (simp add: Let_def)
  next
    case (Inr ids)
    show ?thesis
    proof (cases "ids = []")
      case True
      with g Inr have "ends_discovery render listing page" "returns_empty render listing page"
        by (simp_all add: ends_discovery_def returns_empty_def page_ids_def)
      then show ?thesis
        by simp
    next
      case False
      with g Inr Cons.prems have
        "through_first (ends_discovery render listing) pages =
           through_first (returns_empty render listing) pages"
        by (intro Cons.IH) (simp add: Let_def)
      moreover from g Inr False have
        "\<not> ends_discovery render listing page" "\<not> returns_empty render listing page"
        by (simp_all add: ends_discovery_def returns_empty_def page_ids_def)
      ultimately show ?thesis
        by simp
    qed
  qed
qed

text \<open>
  Claim C6, amended. For every page cap, in a run that no exception of a listing fetch
  ends (\<open>get_job_list\<close> catches \<open>RequestException\<close> only), the first page whose returned
  identifier sequence is empty terminates discovery: the pages requested are 1 to that
  page, in increasing order, and no page after it, even when the cap has not been reached;
  if no page returns an empty sequence, the pages requested are 1 to the cap.
\<close>

theorem discovery_stops_at_first_empty_page:
  assumes "snd (crawl render order listing detail max_pages new_crawler) = None"
  shows "pages_requested (fst (crawl render order listing detail max_pages new_crawler)) =
           (case find (returns_empty render listing) [1..max_pages] of
              None \<Rightarrow> [1..max_pages]
            | Some k \<Rightarrow> [1..k])"
proof -
  have "snd (discover render listing [1..max_pages]
               (new_crawler\<lparr>log := log new_crawler @ [Info_Starting]\<rparr>)) = None"
    using assms by (auto simp: crawl_def split: prod.splits option.splits)
  then have "through_first (ends_discovery render listing) [1..max_pages] =
               through_first (returns_empty render listing) [1..max_pages]"
    by (rule discover_completes_pages)
  then show ?thesis
    by (simp add: crawl_pages_requested through_first_upto)
qed

text \<open>
  Claim C9. After any pages of discovery, and after the whole run, the accumulated
  identifiers hold no identifier twice.
\<close>

theorem accumulated_ids_distinct:
  "distinct (job_ids (fst (discover render listing pages new_crawler))) \<and>
   distinct (job_ids (fst (crawl render order listing detail max_pages new_crawler)))"
proof
  show "distinct (job_ids (fst (discover render listing pages new_crawler)))"
    by (rule discover_distinct) (simp add: new_crawler_def)
  have "distinct (job_ids (fst (discover render listing [1..max_pages]
          (new_crawler\<lparr>log := log new_crawler @ [Info_Starting]\<rparr>))))"
    by (rule discover_distinct) (simp add: new_crawler_def)
  then show "distinct (job_ids (fst (crawl render order listing detail max_pages new_crawler)))"
    by (auto simp: crawl_def Let_def enrich_job_ids split: prod.splits option.splits)
qed

text \<open>
  Claim C7. In a run whose first phase completes, the second phase requests the detail of
  every accumulated identifier exactly once, in the order in which the set yields them
  (any order without repetition), whatever the outcome of the fetches before it; the
  number of results is the number of identifiers whose fetch yields a record.
\<close>

theorem enrichment_attempts_every_id_once:
  assumes "snd (crawl render order listing detail max_pages new_crawler) = None"
      and "distinct (order (job_ids (fst (crawl render order listing detail max_pages new_crawler))))"
      and "set (order (job_ids (fst (crawl render order listing detail max_pages new_crawler)))) =
           set (job_ids (fst (crawl render order listing detail max_pages new_crawler)))"
  shows "details_requested (fst (crawl render order listing detail max_pages new_crawler)) =
           order (job_ids (fst (crawl render order listing detail max_pages new_crawler))) \<and>
         (\<forall>job_id \<in> set (job_ids (fst (crawl render order listing detail max_pages new_crawler))).
            count_list (details_requested
              (fst (crawl render order listing detail max_pages new_crawler))) job_id = 1) \<and>
         length (results (fst (crawl render order listing detail max_pages new_crawler))) =
           length (filter (detail_succeeds render detail)
             (job_ids (fst (crawl render order listing detail max_pages new_crawler))))"
proof -
  define st0 where "st0 = new_crawler\<lparr>log := log new_crawler @ [Info_Starting]\<rparr>"
  define st1 where "st1 = fst (discover render listing [1..max_pages] st0)"
  define final where "final = fst (crawl render order listing detail max_pages new_crawler)"
  have none: "snd (discover render listing [1..max_pages] st0) = None"
    using assms(1) by (auto simp: crawl_def st0_def split: prod.splits option.splits)
  then have d: "discover render listing [1..max_pages] st0 = (st1, None)"
    by (simp add: st1_def prod_eq_iff)
  have ids: "job_ids final = job_ids st1"
    by (simp add: final_def crawl_def st0_def [symmetric] d Let_def enrich_job_ids)
  have req: "details_requested final = order (job_ids st1)"
    by (simp add: final_def crawl_def st0_def [symmetric] d Let_def enrich_details)
      (simp add: st1_def discover_details st0_def new_crawler_def)
  have res: "length (results final) =
               length (filter (detail_succeeds render detail) (order (job_ids st1)))"
    by (simp add: final_def crawl_def st0_def [symmetric] d Let_def enrich_results)
      (simp add: st1_def discover_results st0_def new_crawler_def)
  have dist: "distinct (job_ids st1)"
    unfolding st1_def by (rule discover_distinct) (simp add: st0_def new_crawler_def)
  have o1: "distinct (order (job_ids st1))" and o2: "set (order (job_ids st1)) = set (job_ids st1)"
    using assms(2,3) by (simp_all add: final_def [symmetric] ids)
  have "\<forall>job_id \<in> set (job_ids st1). count_list (order (job_ids st1)) job_id = 1"
    using o1 o2 by (simp add: count_list_distinct)
  moreover have "length (filter (detail_succeeds render detail) (order (job_ids st1))) =
                 length (filter (detail_succeeds render detail) (job_ids st1))"
    using o1 dist o2 by (rule filter_length_same_set)
  ultimately show ?thesis
    unfolding final_def [symmetric] by (simp add: ids req res)
qed

subsection \<open>A run\<close>

lemma discover_Cons_if:
  "discover render listing (page # pages) st =
     (if isl (snd (get_job_list render page (listing page)))
      then (st\<lparr>pages_requested := pages_requested st @ [page],
               log := log st @ fst (get_job_list render page (listing page))\<rparr>,
            Some (projl (snd (get_job_list render page (listing page)))))
      else if projr (snd (get_job_list render page (listing page))) = []
      then (st\<lparr>pages_requested := pages_requested st @ [page],
               log := log st @ fst (get_job_list render page (listing page)) @ [Info_No_More_Jobs]\<rparr>,
            None)
      else discover render listing pages
             (st\<lparr>pages_requested := pages_requested st @ [page],
                 job_ids := set_update (job_ids st)
                    (projr (snd (get_job_list render page (listing page)))),
                 log := log st @ fst (get_job_list render page (listing page)) @
                   [Info_Collected (length (set_update (job_ids st)
                      (projr (snd (get_job_list render page (listing page))))))]\<rparr>))"
  by (simp add: Let_def split: prod.splits sum.splits)

lemma enrich_Cons_if:
  "enrich render detail (job_id # ids) st =
     enrich render detail ids
       (if snd (get_job_detail render job_id (detail job_id)) = None
           \<or> the (snd (get_job_detail render job_id (detail job_id))) = []
        then st\<lparr>details_requested := details_requested st @ [job_id],
                log := log st @ fst (get_job_detail render job_id (detail job_id))\<rparr>
        else st\<lparr>details_requested := details_requested st @ [job_id],
                log := log st @ fst (get_job_detail render job_id (detail job_id)),
                results := results st @ [the (snd (get_job_detail render job_id (detail job_id)))]\<rparr>)"
  by (simp add: Let_def split: prod.splits option.splits)

lemma demo_pages:
  "get_job_list no_repr 1 (two_page_listing 1) = ([], Inr [u ''1'', u ''2''])"
  "get_job_list no_repr 2 (two_page_listing 2) = ([], Inr [u ''2'', u ''3''])"
  "get_job_list no_repr 3 (two_page_listing 3) = ([Warning_No_Data 3], Inr [])"
  by (simp_all add: two_page_listing_def get_job_list_def listing_ids_def u_def str_int_def
        digits.simps)

lemma demo_details:
  "get_job_detail no_repr (u ''1'') (failing_detail (u ''1'')) = ([], Some fallback_record)"
  "get_job_detail no_repr (u ''2'') (failing_detail (u ''2'')) =
     ([Error_Job_Detail (u ''2'') RequestException], None)"
  "get_job_detail no_repr (u ''3'') (failing_detail (u ''3'')) = ([], Some fallback_record)"
  by (simp_all add: failing_detail_def eval_defs fallback_record_def)

lemma fallback_record_nonempty: "fallback_record \<noteq> []"
  by (simp add: fallback_record_def)

text \<open>
  Page cap 10, page 3 empty: pages 4 to 10 are not requested; the identifier 2 of both
  pages is held once; its detail fetch fails and the two other records are collected.
\<close>

lemma pages_to_10: "[1..10] = [1, 2, 3, 4, 5, 6, 7, 8, 9, 10::int]"
  by (simp add: upto_rec1)

lemma pages_to_5: "[1..5] = [1, 2, 3, 4, 5::int]"
  by (simp add: upto_rec1)

lemma demo_crawl:
  "crawl no_repr rev two_page_listing failing_detail 10 new_crawler =
     (\<lparr>job_ids = [u ''1'', u ''2'', u ''3''], results = [fallback_record, fallback_record],
       pages_requested = [1, 2, 3], details_requested = [u ''3'', u ''2'', u ''1''],
       log = [Info_Starting, Info_Collected 2, Info_Collected 3, Warning_No_Data 3, Info_No_More_Jobs,
              Error_Job_Detail (u ''2'') RequestException, Info_Completed 2]\<rparr>, None)"
proof -
  note pages = pages_to_10
  have ne: "[u ''1'', u ''2''] \<noteq> []" "[u ''2'', u ''3''] \<noteq> []"
    by simp_all
  have neq: "u ''1'' \<noteq> u ''2''" "u ''1'' \<noteq> u ''3''" "u ''2'' \<noteq> u ''3''"
            "u ''2'' \<noteq> u ''1''" "u ''3'' \<noteq> u ''1''" "u ''3'' \<noteq> u ''2''"
    by (simp_all add: u_def)
  show ?thesis
    unfolding crawl_def pages
    by (simp add: discover_Cons_if enrich_Cons_if demo_pages demo_details new_crawler_def neq
          fallback_record_nonempty del: discover.simps(2) enrich.simps(2))
qed

text \<open>
  In the run above the fetch of the identifier 2 fails; the identifiers 3 and 1 are
  fetched all the same, each once, and two records result.
\<close>

theorem enrichment_attempts_every_id_once_witness:
  "snd (crawl no_repr rev two_page_listing failing_detail 10 new_crawler) = None \<and>
   distinct (rev (job_ids (fst (crawl no_repr rev two_page_listing failing_detail 10 new_crawler)))) \<and>
   set (rev (job_ids (fst (crawl no_repr rev two_page_listing failing_detail 10 new_crawler)))) =
     set (job_ids (fst (crawl no_repr rev two_page_listing failing_detail 10 new_crawler))) \<and>
   details_requested (fst (crawl no_repr rev two_page_listing failing_detail 10 new_crawler)) =
     [u ''3'', u ''2'', u ''1''] \<and>
   snd (get_job_detail no_repr (u ''2'') (failing_detail (u ''2''))) = None \<and>
   length (results (fst (crawl no_repr rev two_page_listing failing_detail 10 new_crawler))) = 2"
  using enrichment_attempts_every_id_once
    [where render = no_repr and order = rev and listing = two_page_listing
       and detail = failing_detail and max_pages = 10]
  by (simp add: demo_crawl demo_details) (auto simp: u_def)

text \<open>The same run, page cap 10: page 3 returns an empty sequence and the pages
  requested are 1, 2, 3.\<close>

theorem discovery_stops_at_first_empty_page_witness:
  "snd (crawl no_repr rev two_page_listing failing_detail 10 new_crawler) = None \<and>
   find (returns_empty no_repr two_page_listing) [1..10] = Some 3 \<and>
   pages_requested (fst (crawl no_repr rev two_page_listing failing_detail 10 new_crawler)) =
     [1, 2, 3]"
  using discovery_stops_at_first_empty_page
    [where render = no_repr and order = rev and listing = two_page_listing
       and detail = failing_detail and max_pages = 10]
  by (simp add: demo_crawl pages_to_10 returns_empty_def page_ids_def demo_pages)

text \<open>
  The claim as stated fails when a listing body is not an object: with page cap 5 and a
  second page that is a JSON array, \<open>data.get\<close> raises \<open>AttributeError\<close>, which
  \<open>get_job_list\<close> does not catch and \<open>crawl\<close> does not either. No page has returned an
  empty sequence, and the pages 3 to 5 are never requested.
\<close>

lemma array_pages:
  "get_job_list no_repr 1 (array_page_listing 1) = ([], Inr [u ''1''])"
  "get_job_list no_repr 2 (array_page_listing 2) = ([], Inl AttributeError)"
  "get_job_list no_repr 3 (array_page_listing 3) = ([], Inr [u ''3''])"
  "get_job_list no_repr 4 (array_page_listing 4) = ([], Inr [u ''4''])"
  "get_job_list no_repr 5 (array_page_listing 5) = ([], Inr [u ''5''])"
  by (simp_all add: array_page_listing_def get_job_list_def listing_ids_def u_def str_int_def
        digits.simps)

theorem discovery_array_page_counterexample:
  "find (returns_empty no_repr array_page_listing) [1..5] = None \<and>
   snd (crawl no_repr rev array_page_listing failing_detail 5 new_crawler) = Some AttributeError \<and>
   pages_requested (fst (crawl no_repr rev array_page_listing failing_detail 5 new_crawler)) =
     [1, 2] \<and>
   pages_requested (fst (crawl no_repr rev array_page_listing failing_detail 5 new_crawler)) \<noteq>
     [1..5]"
  unfolding crawl_def pages_to_5
  by (simp add: discover_Cons_if array_pages returns_empty_def page_ids_def new_crawler_def
        del: discover.simps(2))

section \<open>Properties of \<open>save_to_csv\<close>\<close>

lemma map_exn_Inr:
  "(\<And>x. x \<in> set xs \<Longrightarrow> f x = Inr (g x)) \<Longrightarrow> map_exn f xs = Inr (map g xs)"
  by (induction xs) simp_all

lemma columns_of_same_keys:
  assumes "records \<noteq> []" and "\<forall>r \<in> set records. map fst r = ks" and "distinct ks"
  shows "rev (remdups (rev (concat (map (map fst) records)))) = ks"
proof -
  have absorb: "remdups (ys @ zs) = remdups zs" if "set ys \<subseteq> set zs" for ys zs :: "'a list"
    using that by (induction ys) auto
  obtain r rs where recs: "records = r # rs"
    using assms(1) by (cases records) auto
  have sub: "set (concat (map (map fst) rs)) \<subseteq> set ks"
    using assms(2) recs by auto
  have "rev (concat (map (map fst) records)) = rev (concat (map (map fst) rs)) @ rev ks"
    using assms(2) recs by simp
  moreover have "remdups (rev (concat (map (map fst) rs)) @ rev ks) = remdups (rev ks)"
    using sub by (intro absorb) simp
  ultimately show ?thesis
    using assms(3) by (simp add: distinct_remdups_id)
qed

lemma distinct_field_names: "distinct field_names"
  by (simp add: field_names_def u_def)

lemma data_frame_job_records:
  assumes "records \<noteq> []" and "\<forall>r \<in> set records. map fst r = field_names"
  shows "data_frame infer records =
           (field_names,
            map (\<lambda>i. map (\<lambda>c. (c, frame_cell infer records c i)) field_names)
              [0..<length records])"
  by (simp add: data_frame_def columns_of_same_keys [OF assms distinct_field_names])

lemma flatten_cell_strings:
  assumes "is_str_list_cell x"
  shows "flatten_cell render x = Inr (joined_cell x)"
proof -
  from assms obtain xs where x: "x = Val (JArr xs)" and xs: "list_all is_str xs"
    by (auto simp: is_str_list_cell_def is_str_list_def split: cell.splits json.splits)
  have "str_item y = Inr (the_str y)" if "y \<in> set xs" for y
    using xs that by (cases y) (auto simp: list_all_iff is_str_def str_item_def the_str_def)
  then have "map_exn str_item xs = Inr (map the_str xs)"
    by (rule map_exn_Inr)
  then show ?thesis
    by (simp add: x joined_cell_def)
qed

lemma apply_row_strings:
  "\<forall>(c, x) \<in> set row. c = col \<longrightarrow> is_str_list_cell x \<Longrightarrow>
   map_exn (\<lambda>(c, x).
        if c = col then bind_exn (flatten_cell render x) (\<lambda>y. Inr (c, y)) else Inr (c, x))
     row =
   Inr (map (\<lambda>(c, x). (c, if c = col then joined_cell x else x)) row)"
  by (induction row) (auto simp: flatten_cell_strings)

lemma apply_rows_strings:
  "\<forall>row \<in> set rows. \<forall>(c, x) \<in> set row. c = col \<longrightarrow> is_str_list_cell x \<Longrightarrow>
   map_exn (map_exn (\<lambda>(c, x).
        if c = col then bind_exn (flatten_cell render x) (\<lambda>y. Inr (c, y)) else Inr (c, x)))
     rows =
   Inr (map (map (\<lambda>(c, x). (c, if c = col then joined_cell x else x))) rows)"
  by (induction rows) (simp_all add: apply_row_strings)

lemma apply_column_strings:
  assumes "col \<in> set columns"
      and "\<forall>row \<in> set rows. \<forall>(c, x) \<in> set row. c = col \<longrightarrow> is_str_list_cell x"
  shows "apply_column render col (columns, rows) =
           Inr (columns, map (map (\<lambda>(c, x). (c, if c = col then joined_cell x else x))) rows)"
  using assms(1) by (simp add: apply_column_def apply_rows_strings [OF assms(2)])

lemma for_columns_strings:
  assumes "set cols \<subseteq> set columns" and "distinct cols"
      and "\<forall>row \<in> set rows. \<forall>(c, x) \<in> set row. c \<in> set cols \<longrightarrow> is_str_list_cell x"
  shows "for_columns render cols (columns, rows) =
           Inr (columns,
                map (map (\<lambda>(c, x). (c, if c \<in> set cols then joined_cell x else x))) rows)"
  using assms
proof (induction cols arbitrary: rows)
  case Nil
  then show ?case by simp
next
  case (Cons col cols)
  let ?rows1 = "map (map (\<lambda>(c, x). (c, if c = col then joined_cell x else x))) rows"
  have step: "apply_column render col (columns, rows) = Inr (columns, ?rows1)"
    using Cons.prems by (intro apply_column_strings) auto
  have "\<forall>row \<in> set ?rows1. \<forall>(c, x) \<in> set row. c \<in> set cols \<longrightarrow> is_str_list_cell x"
    using Cons.prems by fastforce
  then have "for_columns render cols (columns, ?rows1) =
           Inr (columns,
                map (map (\<lambda>(c, x). (c, if c \<in> set cols then joined_cell x else x))) ?rows1)"
    using Cons.prems by (intro Cons.IH) auto
  moreover have "map (map (\<lambda>(c, x). (c, if c \<in> set cols then joined_cell x else x))) ?rows1 =
                 map (map (\<lambda>(c, x). (c, if c \<in> set (col # cols) then joined_cell x else x))) rows"
    using Cons.prems(2) by (auto simp: comp_def case_prod_unfold)
  ultimately show ?case
    by (simp add: step)
qed

lemma list_columns_sequence_fields: "list_columns = sequence_fields"
  by (simp add: list_columns_def sequence_fields_def)

lemma list_columns_fields: "set list_columns \<subseteq> set field_names" "distinct list_columns"
  by (simp_all add: list_columns_def field_names_def u_def)

lemma job_record_frame_cell:
  assumes "is_job_record (records ! i)" and "c \<in> set list_columns"
  shows "is_str_list_cell (frame_cell infer records c i)"
proof -
  have "is_str_list (map_of (records ! i) c)"
    using assms by (simp add: is_job_record_def list_all_iff list_columns_sequence_fields)
  then show ?thesis
    by (auto simp: frame_cell_def is_str_list_def is_str_list_cell_def
          split: option.splits json.splits)
qed

lemma the_str_JStr: "map (the_str \<circ> JStr) ls = ls"
  by (induction ls) (simp_all add: the_str_def)

lemma frame_cell_joined:
  assumes "map_of (records ! i) c = Some (JArr (map JStr ls))"
  shows "cell_text fmt (joined_cell (frame_cell infer records c i)) = py_join (u ''|'') ls"
  using assms by (simp add: frame_cell_def joined_cell_def the_str_JStr)

lemma map_of_zip_map: "c \<in> set ks \<Longrightarrow> map_of (zip ks (map g ks)) c = Some (g c)"
  by (induction ks) auto

text \<open>
  Claim C8, amended. For every non-empty collection of N job records whose
  sequence-valued fields hold strings only, \<open>save_to_csv\<close> writes, when the write itself
  does not fail, a file whose content read back is one header row with the twelve
  field names plus exactly N data rows of twelve fields each (no row-index column), the
  row of a record holding, under each of \<open>category\<close>, \<open>role\<close>, \<open>requirement\<close>, \<open>preferred\<close>,
  \<open>tech_stack\<close> and \<open>welfare\<close>, the elements of that record's sequence joined with \<open>|\<close>;
  whatever the library makes of the other columns.
\<close>

theorem export_header_and_rows:
  assumes "records \<noteq> []" and "list_all is_job_record records"
  shows "\<exists>rows.
           save_to_csv infer fmt render stamp None filename records =
             ([Info_Saved (file_name stamp filename)],
              Some (file_name stamp filename, field_names, rows)) \<and>
           length field_names = 12 \<and>
           length rows = length records \<and>
           list_all (\<lambda>row. length row = 12) rows \<and>
           (\<forall>i < length records.
              \<forall>c \<in> set [u ''category'', u ''role'', u ''requirement'', u ''preferred'',
                        u ''tech_stack'', u ''welfare''].
              \<forall>ls. map_of (records ! i) c = Some (JArr (map JStr ls)) \<longrightarrow>
                   map_of (zip field_names (rows ! i)) c = Some (py_join (u ''|'') ls))"
proof -
  define text_of where
    "text_of i c =
       cell_text fmt (if c \<in> set list_columns then joined_cell (frame_cell infer records c i)
                      else frame_cell infer records c i)" for i c
  define rows where "rows = map (\<lambda>i. map (text_of i) field_names) [0..<length records]"
  have keys: "\<forall>r \<in> set records. map fst r = field_names"
    using assms(2) by (simp add: list_all_iff is_job_record_def)
  have frame: "data_frame infer records =
           (field_names,
            map (\<lambda>i. map (\<lambda>c. (c, frame_cell infer records c i)) field_names)
              [0..<length records])"
    using assms(1) keys by (rule data_frame_job_records)
  have "\<forall>row \<in> set (map (\<lambda>i. map (\<lambda>c. (c, frame_cell infer records c i)) field_names)
                       [0..<length records]).
          \<forall>(c, x) \<in> set row. c \<in> set list_columns \<longrightarrow> is_str_list_cell x"
    using assms(2) by (auto simp: list_all_length job_record_frame_cell)
  with list_columns_fields have
    "for_columns render list_columns
       (field_names,
        map (\<lambda>i. map (\<lambda>c. (c, frame_cell infer records c i)) field_names)
          [0..<length records]) =
     Inr (field_names,
          map (map (\<lambda>(c, x). (c, if c \<in> set list_columns then joined_cell x else x)))
            (map (\<lambda>i. map (\<lambda>c. (c, frame_cell infer records c i)) field_names)
               [0..<length records]))"
    by (rule for_columns_strings)
  then have saved: "save_to_csv infer fmt render stamp None filename records =
             ([Info_Saved (file_name stamp filename)],
              Some (file_name stamp filename, field_names, rows))"
    using assms(1)
    by (simp add: save_to_csv_def frame to_csv_def rows_def text_of_def comp_def if_distrib)
  have twelve: "length field_names = 12"
    by (simp add: field_names_def)
  have len: "length rows = length records"
    by (simp add: rows_def)
  have wide: "list_all (\<lambda>row. length row = 12) rows"
    by (simp add: rows_def list_all_iff twelve)
  have cells: "map_of (zip field_names (rows ! i)) c = Some (py_join (u ''|'') ls)"
    if i: "i < length records"
      and c: "c \<in> set [u ''category'', u ''role'', u ''requirement'', u ''preferred'',
                        u ''tech_stack'', u ''welfare'']"
      and ls: "map_of (records ! i) c = Some (JArr (map JStr ls))" for i c ls
  proof -
    from c have cl: "c \<in> set list_columns"
      by (simp add: list_columns_def)
    with list_columns_fields(1) have "c \<in> set field_names"
      by blast
    then have "map_of (zip field_names (rows ! i)) c = Some (text_of i c)"
      using i by (simp add: rows_def map_of_zip_map)
    also have "text_of i c = py_join (u ''|'') ls"
      using cl ls by (simp add: text_of_def frame_cell_joined)
    finally show ?thesis .
  qed
  from saved twelve len wide cells show ?thesis
    by blast
qed

lemma example_records: "is_job_record python_go_record" "is_job_record fallback_record"
  by (simp_all add: is_job_record_def python_go_record_def fallback_record_def field_names_def
        sequence_fields_def is_str_list_def is_str_def u_def)

lemmas export_defs =
  save_to_csv_def data_frame_def frame_cell_def keep_values_def list_columns_def
  apply_column_def str_item_def to_csv_def file_name_def

lemma example_export:
  "save_to_csv keep_values no_text no_repr (u ''20240101_120000'') None None
     [python_go_record, fallback_record] =
     ([Info_Saved (u ''programmers_jobs_20240101_120000.csv'')],
      Some (u ''programmers_jobs_20240101_120000.csv'', field_names,
            [python_go_row, fallback_row]))"
  by (simp add: export_defs field_names_def python_go_record_def fallback_record_def
        python_go_row_def fallback_row_def u_def)

text \<open>Two records; the technology stack Python, Go is written as \<open>Python|Go\<close>.\<close>

theorem export_header_and_rows_witness:
  "[python_go_record, fallback_record] \<noteq> [] \<and>
   list_all is_job_record [python_go_record, fallback_record] \<and>
   map_of python_go_record (u ''tech_stack'') = Some (JArr (map JStr [u ''Python'', u ''Go''])) \<and>
   save_to_csv keep_values no_text no_repr (u ''20240101_120000'') None None
     [python_go_record, fallback_record] =
     ([Info_Saved (u ''programmers_jobs_20240101_120000.csv'')],
      Some (u ''programmers_jobs_20240101_120000.csv'', field_names,
            [python_go_row, fallback_row])) \<and>
   map_of (zip field_names python_go_row) (u ''tech_stack'') =
     Some (py_join (u ''|'') [u ''Python'', u ''Go'']) \<and>
   py_join (u ''|'') [u ''Python'', u ''Go''] = u ''Python|Go''"
proof -
  have py: "map_of python_go_record (u ''tech_stack'') =
              Some (JArr (map JStr [u ''Python'', u ''Go'']))"
    by (simp add: python_go_record_def u_def)
  have tech: "u ''tech_stack'' \<in> set [u ''category'', u ''role'', u ''requirement'',
                u ''preferred'', u ''tech_stack'', u ''welfare'']"
    by simp
  obtain rows where
    saved: "save_to_csv keep_values no_text no_repr (u ''20240101_120000'') None None
              [python_go_record, fallback_record] =
            ([Info_Saved (file_name (u ''20240101_120000'') None)],
             Some (file_name (u ''20240101_120000'') None, field_names, rows))"
    and cells: "\<forall>i < length [python_go_record, fallback_record].
              \<forall>c \<in> set [u ''category'', u ''role'', u ''requirement'', u ''preferred'',
                        u ''tech_stack'', u ''welfare''].
              \<forall>ls. map_of ([python_go_record, fallback_record] ! i) c =
                     Some (JArr (map JStr ls)) \<longrightarrow>
                   map_of (zip field_names (rows ! i)) c = Some (py_join (u ''|'') ls)"
    using export_header_and_rows
      [where records = "[python_go_record, fallback_record]" and infer = keep_values
         and fmt = no_text and render = no_repr and stamp = "u ''20240101_120000''"
         and filename = None]
    by (auto simp: example_records)
  from saved have rows: "rows = [python_go_row, fallback_row]"
    by (simp add: example_export)
  have "0 < length [python_go_record, fallback_record]"
    by simp
  with cells tech have
    "map_of ([python_go_record, fallback_record] ! 0) (u ''tech_stack'') =
       Some (JArr (map JStr [u ''Python'', u ''Go''])) \<longrightarrow>
     map_of (zip field_names (rows ! 0)) (u ''tech_stack'') =
       Some (py_join (u ''|'') [u ''Python'', u ''Go''])"
    by blast
  then have "map_of (zip field_names python_go_row) (u ''tech_stack'') =
          Some (py_join (u ''|'') [u ''Python'', u ''Go''])"
    using py by (simp add: rows)
  moreover have "py_join (u ''|'') [u ''Python'', u ''Go''] = u ''Python|Go''"
    by (simp add: u_def)
  ultimately show ?thesis
    using py by (simp add: example_records example_export)
qed

text \<open>
  The claim as stated fails twice. For a record that the detail fetcher does produce: a
  tag whose \<open>name\<close> is null puts \<open>None\<close> into \<open>tech_stack\<close>; \<open>join\<close> then raises, the
  exception is logged and no file is written. And for records of strings when the write
  itself fails, as for a file name in a directory that does not exist: the exception is
  logged and there is no file.
\<close>

theorem export_null_tag_name_counterexample:
  "get_job_detail no_repr (u ''1'') (Body null_tag_example) = ([], Some null_tag_record) \<and>
   save_to_csv keep_values no_text no_repr (u ''20240101_120000'') None None [null_tag_record] =
     ([Error_Saving TypeError], None) \<and>
   save_to_csv keep_values no_text no_repr (u ''20240101_120000'') (Some OSError)
     (Some (u ''missing/jobs.csv'')) [python_go_record, fallback_record] =
     ([Error_Saving OSError], None)"
  by (simp add: eval_defs export_defs null_tag_example_def null_tag_record_def
        python_go_record_def fallback_record_def)

end
